theory Spec2Isabelle
  imports Main
begin

section \<open>Data model of the library service\<close>

text \<open>
  The embedding follows \<^verbatim>\<open>server/src/domain/library/library.service.ts\<close>.
  Identifiers are strings (UUIDs in the program), dates are millisecond timestamps,
  so that comparing two dates through \<^verbatim>\<open>toISOString()\<close> is equality of timestamps.
\<close>

type_synonym ident = string
type_synonym timestamp = int

datatype AssetType = IMAGE | VIDEO

datatype LibraryType = UPLOAD | EXTERNAL

record AssetEntity =
  asset_id :: ident
  asset_ownerId :: ident
  asset_libraryId :: ident
  checksum :: string
  originalPath :: string
  deviceAssetId :: string
  deviceId :: string
  fileCreatedAt :: timestamp
  fileModifiedAt :: timestamp
  localDateTime :: timestamp
  asset_type :: AssetType
  originalFileName :: string
  sidecarPath :: "string option"
  isReadOnly :: bool
  isExternal :: bool
  isOffline :: bool

record LibraryEntity =
  lib_id :: ident
  lib_ownerId :: ident
  lib_type :: LibraryType
  lib_name :: string
  importPaths :: "string list"
  exclusionPatterns :: "string list"
  lib_isVisible :: bool
  refreshedAt :: "timestamp option"
  deletedAt :: "timestamp option"

record UserEntity =
  user_id :: ident
  externalPath :: "string option"

record AuthUserDto =
  auth_id :: ident

text \<open>Job payloads: \<^verbatim>\<open>ILibraryFileJob\<close>, \<^verbatim>\<open>ILibraryRefreshJob\<close>,
  \<^verbatim>\<open>IOfflineLibraryFileJob\<close>, \<^verbatim>\<open>IEntityJob\<close>.\<close>

record ILibraryFileJob =
  file_id :: ident
  file_assetPath :: string
  file_ownerId :: ident
  file_force :: bool

record ILibraryRefreshJob =
  refresh_id :: ident
  refreshModifiedFiles :: bool
  refreshAllFiles :: bool

record IOfflineLibraryFileJob =
  offline_id :: ident
  offline_assetPath :: string

text \<open>The items handed to \<^verbatim>\<open>jobRepository.queue\<close>: the job name with its data.\<close>

datatype JobItem =
    LIBRARY_DELETE ident
  | ASSET_DELETION ident bool
  | METADATA_EXTRACTION ident string
  | VIDEO_CONVERSION ident
  | LIBRARY_SCAN ILibraryRefreshJob
  | LIBRARY_SCAN_ASSET ILibraryFileJob
  | LIBRARY_MARK_ASSET_OFFLINE IOfflineLibraryFileJob
  | LIBRARY_QUEUE_CLEANUP
  | LIBRARY_REMOVE_OFFLINE ident

text \<open>What a handler can throw: \<^verbatim>\<open>BadRequestException\<close> with its message, and the
  \<^verbatim>\<open>SyntaxError\<close> of \<^verbatim>\<open>new RegExp\<close> on a source that is no regular expression.\<close>

datatype error = BadRequestException string | SyntaxError

text \<open>The persistent state the service reaches through its repositories: the asset
  catalog, the library table, the user table and the job queue (oldest job first).\<close>

record world =
  assets :: "AssetEntity list"
  libraries :: "LibraryEntity list"
  users :: "UserEntity list"
  queue :: "JobItem list"

text \<open>
  What the service consumes from Node and from the injected storage and crypto
  repositories, none of which it defines: they are parameters of every handler.
  \<^item> \<open>normalize\<close> is \<^verbatim>\<open>path.normalize\<close>, \<open>basename\<close> is \<^verbatim>\<open>path.basename\<close>,
    \<open>parseName\<close> is \<^verbatim>\<open>path.parse(p).name\<close>;
  \<^item> \<open>regExpMatch src s\<close> is \<^verbatim>\<open>s.match(new RegExp(src))\<close> read as a truth value,
    \<open>None\<close> when the constructor throws;
  \<^item> \<open>stat p\<close> is the \<^verbatim>\<open>mtime\<close> of \<^verbatim>\<open>storageRepository.stat(p)\<close>, \<open>None\<close> when it throws;
  \<^item> \<open>checkFileExists p\<close> is \<^verbatim>\<open>storageRepository.checkFileExists(p, R_OK)\<close>;
  \<^item> \<open>crawl\<close> is \<^verbatim>\<open>storageRepository.crawl\<close>;
  \<^item> \<open>isImage\<close>, \<open>isVideo\<close> are the two tests of the \<^verbatim>\<open>mimeTypes\<close> table;
  \<^item> \<open>hashSha1\<close> is \<^verbatim>\<open>cryptoRepository.hashSha1\<close>;
  \<^item> \<open>removeWhitespace s\<close> is \<^verbatim>\<open>s.replace(/\s+/g, '')\<close>;
  \<^item> \<open>now\<close> is \<^verbatim>\<open>new Date()\<close>;
  \<^item> \<open>generateId\<close> is the identifier the database gives a new asset row.
\<close>

record env =
  normalize :: "string \<Rightarrow> string"
  basename :: "string \<Rightarrow> string"
  parseName :: "string \<Rightarrow> string"
  regExpMatch :: "string \<Rightarrow> string \<Rightarrow> bool option"
  stat :: "string \<Rightarrow> timestamp option"
  checkFileExists :: "string \<Rightarrow> bool"
  crawl :: "string list \<Rightarrow> string list \<Rightarrow> string list"
  isImage :: "string \<Rightarrow> bool"
  isVideo :: "string \<Rightarrow> bool"
  hashSha1 :: "string \<Rightarrow> string"
  removeWhitespace :: "string \<Rightarrow> string"
  now :: timestamp
  generateId :: "AssetEntity list \<Rightarrow> ident"

section \<open>The repositories\<close>

text \<open>
  The service is written against repository interfaces whose implementations are not
  part of the service file. Each operation below is the interface's contract on the
  in-memory tables of \<^typ>\<open>world\<close>.
\<close>

text \<open>Modelled from the spec: \<^verbatim>\<open>jobRepository.queue\<close>, Enqueue(jobName, payload).\<close>

definition queueJob :: "JobItem \<Rightarrow> world \<Rightarrow> world" where
  "queueJob j w = w\<lparr>queue := queue w @ [j]\<rparr>"

text \<open>Modelled from the spec: \<^verbatim>\<open>jobRepository.queue\<close> called once per element of a
  \<^verbatim>\<open>for ... of\<close> loop, in the order of the loop.\<close>

fun queueAll :: "JobItem list \<Rightarrow> world \<Rightarrow> world" where
  "queueAll [] w = w"
| "queueAll (j # js) w = queueAll js (queueJob j w)"

text \<open>Modelled from the spec: \<^verbatim>\<open>userRepository.get(id)\<close>.\<close>

definition userRepository_get :: "world \<Rightarrow> ident \<Rightarrow> UserEntity option" where
  "userRepository_get w i = find (\<lambda>u. user_id u = i) (users w)"

text \<open>Modelled from the spec: \<^verbatim>\<open>assetRepository.getByLibraryIdAndOriginalPath\<close>,
  Catalog GetByLibraryAndPath; path uniqueness is scoped to (libraryId, originalPath).\<close>

definition getByLibraryIdAndOriginalPath :: "world \<Rightarrow> ident \<Rightarrow> string \<Rightarrow> AssetEntity option" where
  "getByLibraryIdAndOriginalPath w l p =
     find (\<lambda>a. asset_libraryId a = l \<and> originalPath a = p) (assets w)"

text \<open>Modelled from the spec: \<^verbatim>\<open>assetRepository.save({ id, isOffline })\<close>,
  Catalog Save (partial update by id).\<close>

definition saveIsOffline :: "ident \<Rightarrow> bool \<Rightarrow> world \<Rightarrow> world" where
  "saveIsOffline i b w =
     w\<lparr>assets := map (\<lambda>a. if asset_id a = i then a\<lparr>isOffline := b\<rparr> else a) (assets w)\<rparr>"

text \<open>Modelled from the spec: \<^verbatim>\<open>assetRepository.updateAll(ids, { fileCreatedAt, fileModifiedAt })\<close>,
  Catalog UpdateAll(ids, partial).\<close>

definition updateAll :: "ident list \<Rightarrow> timestamp \<Rightarrow> timestamp \<Rightarrow> world \<Rightarrow> world" where
  "updateAll ids c m w =
     w\<lparr>assets := map (\<lambda>a. if asset_id a \<in> set ids
                            then a\<lparr>fileCreatedAt := c, fileModifiedAt := m\<rparr> else a) (assets w)\<rparr>"

text \<open>Modelled from the spec: \<^verbatim>\<open>assetRepository.create\<close>, Catalog Create. The row gets
  the identifier the database generates, and is online.\<close>

definition createAsset :: "env \<Rightarrow> AssetEntity \<Rightarrow> world \<Rightarrow> AssetEntity \<times> world" where
  "createAsset e a w =
     (let added = a\<lparr>asset_id := generateId e (assets w), isOffline := False\<rparr>
      in (added, w\<lparr>assets := assets w @ [added]\<rparr>))"

text \<open>Modelled from the spec: \<^verbatim>\<open>assetRepository.getByLibraryId([id])\<close>, Catalog GetByLibraryId.\<close>

definition getByLibraryId :: "world \<Rightarrow> ident \<Rightarrow> AssetEntity list" where
  "getByLibraryId w l = filter (\<lambda>a. asset_libraryId a = l) (assets w)"

text \<open>Modelled from the spec: \<^verbatim>\<open>repository.get(id, withDeleted = false)\<close>; soft-deleted
  libraries are found only when \<open>withDeleted\<close> is set.\<close>

definition libraryGet :: "world \<Rightarrow> ident \<Rightarrow> bool \<Rightarrow> LibraryEntity option" where
  "libraryGet w i withDeleted =
     find (\<lambda>l. lib_id l = i \<and> (withDeleted \<or> deletedAt l = None)) (libraries w)"

text \<open>Modelled from the spec: \<^verbatim>\<open>repository.getAssetIds(id, true)\<close>, all asset ids owned
  by the library, including offline ones.\<close>

definition getAssetIds :: "world \<Rightarrow> ident \<Rightarrow> ident list" where
  "getAssetIds w l = map asset_id (filter (\<lambda>a. asset_libraryId a = l) (assets w))"

text \<open>Modelled from the spec: \<^verbatim>\<open>repository.getOnlineAssetPaths(id)\<close>,
  GetOnlinePathsForLibrary.\<close>

definition getOnlineAssetPaths :: "world \<Rightarrow> ident \<Rightarrow> string list" where
  "getOnlineAssetPaths w l =
     map originalPath (filter (\<lambda>a. asset_libraryId a = l \<and> \<not> isOffline a) (assets w))"

text \<open>Modelled from the spec: \<^verbatim>\<open>repository.getUploadLibraryCount(ownerId)\<close>.\<close>

definition getUploadLibraryCount :: "world \<Rightarrow> ident \<Rightarrow> nat" where
  "getUploadLibraryCount w u =
     length (filter (\<lambda>l. lib_ownerId l = u \<and> lib_type l = UPLOAD \<and> deletedAt l = None) (libraries w))"

text \<open>Modelled from the spec: \<^verbatim>\<open>repository.getAllDeleted()\<close>, the libraries with
  deletedAt set but not yet purged.\<close>

definition getAllDeleted :: "world \<Rightarrow> LibraryEntity list" where
  "getAllDeleted w = filter (\<lambda>l. deletedAt l \<noteq> None) (libraries w)"

text \<open>Modelled from the spec: \<^verbatim>\<open>repository.softDelete(id)\<close>, sets deletedAt.\<close>

definition softDelete :: "env \<Rightarrow> ident \<Rightarrow> world \<Rightarrow> world" where
  "softDelete e i w =
     w\<lparr>libraries := map (\<lambda>l. if lib_id l = i then l\<lparr>deletedAt := Some (now e)\<rparr> else l) (libraries w)\<rparr>"

text \<open>Modelled from the spec: \<^verbatim>\<open>repository.delete(id)\<close>, the hard delete of the row.\<close>

definition libraryDelete :: "ident \<Rightarrow> world \<Rightarrow> world" where
  "libraryDelete i w = w\<lparr>libraries := filter (\<lambda>l. lib_id l \<noteq> i) (libraries w)\<rparr>"

text \<open>Modelled from the spec: \<^verbatim>\<open>repository.update({ id, refreshedAt })\<close>.\<close>

definition updateRefreshedAt :: "ident \<Rightarrow> timestamp \<Rightarrow> world \<Rightarrow> world" where
  "updateRefreshedAt i t w =
     w\<lparr>libraries := map (\<lambda>l. if lib_id l = i then l\<lparr>refreshedAt := Some t\<rparr> else l) (libraries w)\<rparr>"

text \<open>Modelled from the spec: \<^verbatim>\<open>access.requirePermission(authUser, LIBRARY_DELETE, id)\<close>;
  deleting a library is ownership-constrained.\<close>

definition hasLibraryOwnerAccess :: "world \<Rightarrow> AuthUserDto \<Rightarrow> ident \<Rightarrow> bool" where
  "hasLibraryOwnerAccess w au i =
     (case libraryGet w i False of None \<Rightarrow> False | Some l \<Rightarrow> lib_ownerId l = auth_id au)"

section \<open>The service\<close>

subsection \<open>Deleting a library\<close>

text \<open>\<^verbatim>\<open>findOrFail\<close> (lines 435-441).\<close>

definition findOrFail :: "world \<Rightarrow> ident \<Rightarrow> error + LibraryEntity" where
  "findOrFail w i =
     (case libraryGet w i False of
        None \<Rightarrow> Inl (BadRequestException ''Library not found'')
      | Some l \<Rightarrow> Inr l)"

text \<open>\<^verbatim>\<open>delete\<close> (lines 119-130). The upload libraries counted are those of the
  requesting user.\<close>

definition delete :: "env \<Rightarrow> AuthUserDto \<Rightarrow> ident \<Rightarrow> world \<Rightarrow> (error + unit) \<times> world" where
  "delete e authUser i w =
     (if \<not> hasLibraryOwnerAccess w authUser i
      then (Inl (BadRequestException ''Not found or no library.delete access''), w)
      else case findOrFail w i of
        Inl err \<Rightarrow> (Inl err, w)
      | Inr library \<Rightarrow>
          let uploadCount = getUploadLibraryCount w (auth_id authUser) in
          if lib_type library = UPLOAD \<and> uploadCount \<le> 1
          then (Inl (BadRequestException ''Cannot delete the last upload library''), w)
          else (Inr (), queueJob (LIBRARY_DELETE i) (softDelete e i w)))"

text \<open>\<^verbatim>\<open>handleDeleteLibrary\<close> (lines 132-150).\<close>

definition handleDeleteLibrary :: "ident \<Rightarrow> world \<Rightarrow> bool \<times> world" where
  "handleDeleteLibrary job_id w =
     (case libraryGet w job_id True of
        None \<Rightarrow> (False, w)
      | Some library \<Rightarrow>
          let assetIds = getAssetIds w job_id;
              w1 = queueAll (map (\<lambda>assetId. ASSET_DELETION assetId True) assetIds) w;
              w2 = (if length assetIds = 0 then libraryDelete job_id w1 else w1)
          in (True, w2))"

text \<open>\<^verbatim>\<open>handleQueueCleanup\<close> (lines 72-79).\<close>

definition handleQueueCleanup :: "world \<Rightarrow> bool \<times> world" where
  "handleQueueCleanup w =
     (let pendingDeletion = getAllDeleted w
      in (True, queueAll (map (\<lambda>libraryToDelete. LIBRARY_DELETE (lib_id libraryToDelete)) pendingDeletion) w))"

subsection \<open>Importing or refreshing one path\<close>

text \<open>\<^verbatim>\<open>!user?.externalPath\<close>: no user, no external path, or the empty string.\<close>

definition userExternalPath :: "UserEntity option \<Rightarrow> string option" where
  "userExternalPath user =
     (case user of
        None \<Rightarrow> None
      | Some u \<Rightarrow> (case externalPath u of
                    None \<Rightarrow> None
                  | Some p \<Rightarrow> if p = [] then None else Some p))"

text \<open>\<^verbatim>\<open>library?.deletedAt\<close> (line 242): a date is truthy, a missing library gives
  \<^verbatim>\<open>undefined\<close>.\<close>

definition libraryDeletedAt :: "LibraryEntity option \<Rightarrow> timestamp option" where
  "libraryDeletedAt library = (case library of None \<Rightarrow> None | Some l \<Rightarrow> deletedAt l)"

text \<open>The two flags after lines 185-205: \<open>doImport\<close> and \<open>doRefresh\<close>.\<close>

definition decideImport :: "AssetEntity option \<Rightarrow> bool" where
  "decideImport existingAssetEntity = (existingAssetEntity = None)"

definition decideRefresh :: "bool \<Rightarrow> timestamp \<Rightarrow> AssetEntity option \<Rightarrow> bool" where
  "decideRefresh force mtime existingAssetEntity =
     (case existingAssetEntity of
        None \<Rightarrow> force
      | Some a \<Rightarrow> if mtime \<noteq> fileModifiedAt a then True else force)"

text \<open>Lines 219-227: the asset type from the \<^verbatim>\<open>mimeTypes\<close> table, the image test first;
  \<open>None\<close> is the unsupported file type, on which the handler throws.\<close>

definition classifyAssetType :: "env \<Rightarrow> string \<Rightarrow> AssetType option" where
  "classifyAssetType e assetPath =
     (if isImage e assetPath then Some IMAGE
      else if isVideo e assetPath then Some VIDEO
      else None)"

text \<open>Lines 228-284: look for the sidecar, then import or refresh
  and queue the downstream jobs. \<open>w\<close> is the state after lines 207-212.\<close>

definition importOrRefresh ::
  "env \<Rightarrow> ILibraryFileJob \<Rightarrow> string \<Rightarrow> AssetEntity option \<Rightarrow> timestamp \<Rightarrow> bool \<Rightarrow> bool
     \<Rightarrow> world \<Rightarrow> (error + bool) \<times> world" where
  "importOrRefresh e job assetPath existingAssetEntity mtime doImport doRefresh w =
     (case classifyAssetType e assetPath of
        None \<Rightarrow> (Inl (BadRequestException (''Unsupported file type '' @ assetPath)), w)
      | Some assetType \<Rightarrow>
        let sidecar = (if checkFileExists e (assetPath @ ''.xmp'')
                       then Some (assetPath @ ''.xmp'') else None);
            devAssetId = removeWhitespace e (basename e assetPath);
            pathHash = hashSha1 e (''path:'' @ assetPath);
            queueDownstream = (\<lambda>assetId w'.
               let w1 = queueJob (METADATA_EXTRACTION assetId ''upload'') w'
               in if assetType = VIDEO then queueJob (VIDEO_CONVERSION assetId) w1 else w1)
        in
          if doImport then
            (case libraryDeletedAt (libraryGet w (file_id job) True) of
               Some d \<Rightarrow> (Inr False, w)
             | None \<Rightarrow>
                 let (addedAsset, w1) = createAsset e
                       \<lparr>asset_id = [], asset_ownerId = file_ownerId job,
                        asset_libraryId = file_id job, checksum = pathHash,
                        originalPath = assetPath, deviceAssetId = devAssetId,
                        deviceId = ''Library Import'', fileCreatedAt = mtime,
                        fileModifiedAt = mtime, localDateTime = mtime,
                        asset_type = assetType, originalFileName = parseName e assetPath,
                        sidecarPath = sidecar, isReadOnly = True, isExternal = True,
                        isOffline = False\<rparr> w
                 in (Inr True, queueDownstream (asset_id addedAsset) w1))
          else
            (case existingAssetEntity of
               Some a \<Rightarrow>
                 if doRefresh
                 then (Inr True, queueDownstream (asset_id a) (updateAll [asset_id a] mtime mtime w))
                 else (Inr True, w)
             | None \<Rightarrow> (Inr True, w)))"

text \<open>\<^verbatim>\<open>handleAssetRefresh\<close> (lines 152-285).\<close>

definition handleAssetRefresh :: "env \<Rightarrow> ILibraryFileJob \<Rightarrow> world \<Rightarrow> (error + bool) \<times> world" where
  "handleAssetRefresh e job w =
     (let assetPath = normalize e (file_assetPath job) in
      case userExternalPath (userRepository_get w (file_ownerId job)) of
        None \<Rightarrow> (Inr False, w)
      | Some userExternal \<Rightarrow>
          (case regExpMatch e (CHR ''^'' # normalize e userExternal) (normalize e assetPath) of
             None \<Rightarrow> (Inl SyntaxError, w)
           | Some False \<Rightarrow> (Inr False, w)
           | Some True \<Rightarrow>
               let existingAssetEntity = getByLibraryIdAndOriginalPath w (file_id job) assetPath in
               (case stat e assetPath of
                  None \<Rightarrow>
                    (case existingAssetEntity of
                       Some a \<Rightarrow> (Inr True, saveIsOffline (asset_id a) True w)
                     | None \<Rightarrow> (Inl (BadRequestException ''Can't access file''), w))
                | Some mtime \<Rightarrow>
                    let doImport = decideImport existingAssetEntity;
                        doRefresh0 = decideRefresh (file_force job) mtime existingAssetEntity;
                        wasOffline = (case existingAssetEntity of
                                        None \<Rightarrow> False | Some a \<Rightarrow> isOffline a);
                        w1 = (case existingAssetEntity of
                                None \<Rightarrow> w
                              | Some a \<Rightarrow> if isOffline a
                                          then saveIsOffline (asset_id a) False w else w);
                        doRefresh = (wasOffline \<or> doRefresh0)
                    in if \<not> doImport \<and> \<not> doRefresh then (Inr True, w1)
                       else importOrRefresh e job assetPath existingAssetEntity mtime
                              doImport doRefresh w1)))"

text \<open>\<^verbatim>\<open>handleOfflineAsset\<close> (lines 424-433).\<close>

definition handleOfflineAsset :: "IOfflineLibraryFileJob \<Rightarrow> world \<Rightarrow> bool \<times> world" where
  "handleOfflineAsset job w =
     (case getByLibraryIdAndOriginalPath w (offline_id job) (offline_assetPath job) of
        Some a \<Rightarrow> (True, saveIsOffline (asset_id a) True w)
      | None \<Rightarrow> (True, w))"

subsection \<open>Scanning a library\<close>

text \<open>The \<^verbatim>\<open>filter\<close> of lines 376-379: a regular expression is built from the
  normalized external path for every crawled path, and the first one that cannot be
  built ends the handler.\<close>

fun filterWithinExternalPath :: "env \<Rightarrow> string \<Rightarrow> string list \<Rightarrow> error + string list" where
  "filterWithinExternalPath e normalizedExternalPath [] = Inr []"
| "filterWithinExternalPath e normalizedExternalPath (assetPath # rest) =
     (case regExpMatch e (CHR ''^'' # normalizedExternalPath) assetPath of
        None \<Rightarrow> Inl SyntaxError
      | Some b \<Rightarrow>
          (case filterWithinExternalPath e normalizedExternalPath rest of
             Inl err \<Rightarrow> Inl err
           | Inr kept \<Rightarrow> Inr (if b then assetPath # kept else kept)))"

text \<open>\<^verbatim>\<open>handleQueueAssetRefresh\<close> (lines 353-422).\<close>

definition handleQueueAssetRefresh :: "env \<Rightarrow> ILibraryRefreshJob \<Rightarrow> world \<Rightarrow> (error + bool) \<times> world" where
  "handleQueueAssetRefresh e job w =
     (case libraryGet w (refresh_id job) False of
        None \<Rightarrow> (Inr False, w)
      | Some library \<Rightarrow>
          if lib_type library \<noteq> EXTERNAL then (Inr False, w)
          else
            (case userExternalPath (userRepository_get w (lib_ownerId library)) of
               None \<Rightarrow> (Inr False, w)
             | Some userExternal \<Rightarrow>
                 let normalizedExternalPath = normalize e userExternal in
                 (case filterWithinExternalPath e normalizedExternalPath
                         (map (normalize e) (crawl e (importPaths library) (exclusionPatterns library))) of
                    Inl err \<Rightarrow> (Inl err, w)
                  | Inr crawledAssetPaths \<Rightarrow>
                      let assetsInLibrary = getByLibraryId w (refresh_id job);
                          offlineAssets = filter (\<lambda>asset. originalPath asset \<notin> set crawledAssetPaths)
                                            assetsInLibrary;
                          w1 = queueAll (map (\<lambda>offlineAsset. LIBRARY_MARK_ASSET_OFFLINE
                                   \<lparr>offline_id = refresh_id job,
                                    offline_assetPath = originalPath offlineAsset\<rparr>) offlineAssets) w;
                          filteredPaths =
                            (if refreshAllFiles job \<or> refreshModifiedFiles job then crawledAssetPaths
                             else filter (\<lambda>assetPath. assetPath \<notin> set (getOnlineAssetPaths w1 (refresh_id job)))
                                    crawledAssetPaths);
                          w2 = (if length crawledAssetPaths > 0
                                then queueAll (map (\<lambda>assetPath. LIBRARY_SCAN_ASSET
                                        \<lparr>file_id = refresh_id job,
                                         file_assetPath = normalize e assetPath,
                                         file_ownerId = lib_ownerId library,
                                         file_force = refreshAllFiles job\<rparr>) filteredPaths) w1
                                else w1)
                      in (Inr True, updateRefreshedAt (refresh_id job) (now e) w2))))"

subsection \<open>Delivery of the queued jobs\<close>

text \<open>Modelled from the spec: the task queue hands every per-path job to the import/refresh
  handler and every offline-mark job to the offline handler, each job on its own; a handler
  that throws ends that job only. Jobs of the other handlers are not run here.\<close>

fun runJob :: "env \<Rightarrow> JobItem \<Rightarrow> world \<Rightarrow> world" where
  "runJob e (LIBRARY_SCAN_ASSET job) w = snd (handleAssetRefresh e job w)"
| "runJob e (LIBRARY_MARK_ASSET_OFFLINE job) w = snd (handleOfflineAsset job w)"
| "runJob e other w = w"

section \<open>Notions used in the statements\<close>

text \<open>The import/refresh jobs among the jobs of a queue.\<close>

fun isScanAssetJob :: "JobItem \<Rightarrow> bool" where
  "isScanAssetJob (LIBRARY_SCAN_ASSET job) = True"
| "isScanAssetJob other = False"


text \<open>The two checks of lines 155-164 let the job through: the owner has an external
  path, and the regular expression built from it matches the asset path.\<close>

definition passesPathCheck :: "env \<Rightarrow> ILibraryFileJob \<Rightarrow> world \<Rightarrow> bool" where
  "passesPathCheck e job w =
     (case userExternalPath (userRepository_get w (file_ownerId job)) of
        None \<Rightarrow> False
      | Some userExternal \<Rightarrow>
          regExpMatch e (CHR ''^'' # normalize e userExternal)
            (normalize e (normalize e (file_assetPath job))) = Some True)"

text \<open>The three guards of lines 354-379 let the scan through: the library is found and
  external, its owner has an external path, and the regular expression for the path filter
  could be built.\<close>

definition scanGuardsPass :: "env \<Rightarrow> ILibraryRefreshJob \<Rightarrow> world \<Rightarrow> bool" where
  "scanGuardsPass e job w =
     (case libraryGet w (refresh_id job) False of
        None \<Rightarrow> False
      | Some library \<Rightarrow>
          lib_type library = EXTERNAL \<and>
          (case userExternalPath (userRepository_get w (lib_ownerId library)) of
             None \<Rightarrow> False
           | Some userExternal \<Rightarrow>
               (case filterWithinExternalPath e (normalize e userExternal)
                       (map (normalize e) (crawl e (importPaths library) (exclusionPatterns library))) of
                  Inl err \<Rightarrow> False
                | Inr kept \<Rightarrow> True)))"

text \<open>The jobs a handler run has added to the queue.\<close>

definition emitted :: "world \<Rightarrow> world \<Rightarrow> JobItem list" where
  "emitted w w' = drop (length (queue w)) (queue w')"

section \<open>Example environments and states\<close>

text \<open>
  A regular expression whose source is \<^verbatim>\<open>^\<close> followed by characters that are all
  ordinary (none of the metacharacters of the expression language) matches a string if and
  only if those characters are a prefix of it. For a source outside this form the function
  below answers \<open>None\<close>; in the examples every external path is made of ordinary
  characters.
\<close>

definition regExpMetaChars :: "char list" where
  "regExpMetaChars = [CHR 0x5C] @ ''^$.|?*+()[]{}''"

definition regExpLiteralPrefix :: "string \<Rightarrow> string \<Rightarrow> bool option" where
  "regExpLiteralPrefix src s =
     (case src of
        [] \<Rightarrow> None
      | c # lit \<Rightarrow>
          if c = CHR ''^'' \<and> \<not> list_ex (\<lambda>x. x \<in> set regExpMetaChars) lit
          then Some (take (length lit) s = lit) else None)"

definition endsWith :: "string \<Rightarrow> string \<Rightarrow> bool" where
  "endsWith suffix s = (length suffix \<le> length s \<and> drop (length s - length suffix) s = suffix)"

text \<open>The last segment of a POSIX path, trailing separators ignored, as \<^verbatim>\<open>path.basename\<close>
  gives it; and that segment without its extension, as \<^verbatim>\<open>path.parse(p).name\<close> gives it:
  the extension starts at the last dot, unless that dot is the first character of the
  segment or the segment is \<^verbatim>\<open>..\<close>.\<close>

definition lastSegment :: "string \<Rightarrow> string" where
  "lastSegment p =
     rev (takeWhile (\<lambda>c. c \<noteq> CHR ''/'') (dropWhile (\<lambda>c. c = CHR ''/'') (rev p)))"

definition segmentStem :: "string \<Rightarrow> string" where
  "segmentStem p =
     (if dropWhile (\<lambda>c. c \<noteq> CHR ''.'') (rev (lastSegment p)) = [] \<or>
         tl (dropWhile (\<lambda>c. c \<noteq> CHR ''.'') (rev (lastSegment p))) = [] \<or>
         lastSegment p = ''..''
      then lastSegment p
      else rev (tl (dropWhile (\<lambda>c. c \<noteq> CHR ''.'') (rev (lastSegment p)))))"

text \<open>The white space of \<^verbatim>\<open>\s\<close> within ASCII: tab, line feed, vertical tab, form feed,
  carriage return and space. The other members of \<^verbatim>\<open>\s\<close> lie outside ASCII and occur in
  no example.\<close>

definition asciiWhitespace :: "char list" where
  "asciiWhitespace = [CHR 0x09, CHR 0x0A, CHR 0x0B, CHR 0x0C, CHR 0x0D, CHR 0x20]"

text \<open>An identifier longer than every identifier in the catalog, hence a new one.\<close>

definition longerId :: "AssetEntity list \<Rightarrow> ident" where
  "longerId as = replicate (Suc (fold max (map (\<lambda>a. length (asset_id a)) as) 0)) (CHR ''n'')"

text \<open>An environment over already normalized paths (on which \<^verbatim>\<open>path.normalize\<close> is the
  identity), with \<^verbatim>\<open>.jpg\<close> the image type and \<^verbatim>\<open>.mp4\<close> the video type; the file system is
  given by what \<open>stat\<close> answers and what the crawl finds.\<close>

definition exampleEnv :: "(string \<Rightarrow> timestamp option) \<Rightarrow> string list \<Rightarrow> env" where
  "exampleEnv st found =
     \<lparr>normalize = (\<lambda>p. p), basename = lastSegment, parseName = segmentStem,
      regExpMatch = regExpLiteralPrefix, stat = st, checkFileExists = (\<lambda>p. False),
      crawl = (\<lambda>paths patterns. found), isImage = endsWith ''.jpg'',
      isVideo = endsWith ''.mp4'', hashSha1 = (\<lambda>s. ''sha1:'' @ s),
      removeWhitespace = filter (\<lambda>c. c \<notin> set asciiWhitespace), now = 2000,
      generateId = longerId\<rparr>"

definition exampleAsset :: "ident \<Rightarrow> ident \<Rightarrow> string \<Rightarrow> AssetType \<Rightarrow> timestamp \<Rightarrow> bool \<Rightarrow> AssetEntity" where
  "exampleAsset i l p t m off =
     \<lparr>asset_id = i, asset_ownerId = ''u1'', asset_libraryId = l, checksum = ''sha1:path:'' @ p,
      originalPath = p, deviceAssetId = lastSegment p, deviceId = ''Library Import'',
      fileCreatedAt = m, fileModifiedAt = m, localDateTime = m, asset_type = t,
      originalFileName = segmentStem p, sidecarPath = None, isReadOnly = True,
      isExternal = True, isOffline = off\<rparr>"

definition exampleLibrary :: "ident \<Rightarrow> LibraryType \<Rightarrow> string list \<Rightarrow> timestamp option \<Rightarrow> LibraryEntity" where
  "exampleLibrary i t paths del =
     \<lparr>lib_id = i, lib_ownerId = ''u1'', lib_type = t, lib_name = ''Library'',
      importPaths = paths, exclusionPatterns = [], lib_isVisible = True,
      refreshedAt = None, deletedAt = del\<rparr>"

definition exampleUser :: "string \<Rightarrow> UserEntity" where
  "exampleUser root = \<lparr>user_id = ''u1'', externalPath = Some root\<rparr>"

definition exampleWorld :: "string \<Rightarrow> LibraryEntity list \<Rightarrow> AssetEntity list \<Rightarrow> world" where
  "exampleWorld root libs as =
     \<lparr>assets = as, libraries = libs, users = [exampleUser root], queue = []\<rparr>"

definition exampleFileJob :: "string \<Rightarrow> bool \<Rightarrow> ILibraryFileJob" where
  "exampleFileJob p f = \<lparr>file_id = ''L1'', file_assetPath = p, file_ownerId = ''u1'', file_force = f\<rparr>"

section \<open>Auxiliary facts\<close>

lemmas ex_defs = exampleEnv_def exampleAsset_def exampleLibrary_def exampleUser_def
  exampleWorld_def exampleFileJob_def regExpLiteralPrefix_def regExpMetaChars_def endsWith_def
  lastSegment_def segmentStem_def asciiWhitespace_def longerId_def

lemmas refresh_defs = handleAssetRefresh_def importOrRefresh_def userExternalPath_def
  userRepository_get_def getByLibraryIdAndOriginalPath_def decideImport_def decideRefresh_def
  libraryDeletedAt_def libraryGet_def createAsset_def queueJob_def saveIsOffline_def
  updateAll_def classifyAssetType_def passesPathCheck_def emitted_def

lemma queueAll_eq: "queueAll js w = w\<lparr>queue := queue w @ js\<rparr>"
  by (induction js arbitrary: w) (simp_all add: queueJob_def)

lemma find_map_same:
  "(\<And>x. P (f x) = P x) \<Longrightarrow> find P (map f xs) = map_option f (find P xs)"
  by (induction xs) simp_all

lemma getBy_saveIsOffline:
  "getByLibraryIdAndOriginalPath w l p = Some a \<Longrightarrow>
   getByLibraryIdAndOriginalPath (saveIsOffline (asset_id a) b w) l p = Some (a\<lparr>isOffline := b\<rparr>)"
  by (simp add: getByLibraryIdAndOriginalPath_def saveIsOffline_def find_map_same)

lemma getBy_mem: "getByLibraryIdAndOriginalPath w l p = Some a \<Longrightarrow> a \<in> set (assets w)"
  by (auto simp: getByLibraryIdAndOriginalPath_def find_Some_iff)

lemma saveIsOffline_sets:
  assumes "y \<in> set (assets (saveIsOffline i b w))" and "asset_id y = i"
  shows "isOffline y = b"
proof -
  from assms(1) have "y \<in> (\<lambda>a. if asset_id a = i then a\<lparr>isOffline := b\<rparr> else a) ` set (assets w)"
    by (simp add: saveIsOffline_def)
  then obtain x where x: "x \<in> set (assets w)"
    and y: "y = (if asset_id x = i then x\<lparr>isOffline := b\<rparr> else x)"
    by (rule imageE)
  show ?thesis
  proof (cases "asset_id x = i")
    case True
    with y have "y = x\<lparr>isOffline := b\<rparr>" by simp
    then show ?thesis by simp
  next
    case False
    with y have "y = x" by simp
    with False assms(2) show ?thesis by simp
  qed
qed

lemma saveIsOffline_changes:
  assumes "a \<in> set (assets w)" "isOffline a \<noteq> b"
  shows "assets (saveIsOffline (asset_id a) b w) \<noteq> assets w"
proof
  assume "assets (saveIsOffline (asset_id a) b w) = assets w"
  with assms(1) have "a \<in> set (assets (saveIsOffline (asset_id a) b w))" by simp
  then have "isOffline a = b" by (rule saveIsOffline_sets) (rule refl)
  with assms(2) show False by simp
qed

lemma getBy_updateAll:
  "getByLibraryIdAndOriginalPath w l p = Some a \<Longrightarrow>
   getByLibraryIdAndOriginalPath (updateAll [asset_id a] c m w) l p =
     Some (a\<lparr>fileCreatedAt := c, fileModifiedAt := m\<rparr>)"
  by (simp add: getByLibraryIdAndOriginalPath_def updateAll_def find_map_same)

lemma passesPathCheckE:
  assumes "passesPathCheck e job w"
  obtains root where
    "userExternalPath (userRepository_get w (file_ownerId job)) = Some root" and
    "regExpMatch e (CHR ''^'' # normalize e root) (normalize e (normalize e (file_assetPath job))) = Some True"
  using assms by (auto simp: passesPathCheck_def split: option.splits)

lemma emitted_append: "queue w' = queue w @ js \<Longrightarrow> emitted w w' = js"
  by (simp add: emitted_def)

section \<open>Path containment\<close>

text \<open>
  Claim C1. Path containment: the scan discards every crawled path that does not lie under
  the owner's external path, and the per-path handler rejects such a path, so that no asset
  is ever created for a path outside the external path.

  The code tests containment with a regular expression anchored at the start and built
  from the external path, which accepts every path that merely begins with the same
  characters. With the external path \<^verbatim>\<open>/mnt/user1\<close> and a library whose import path is
  \<^verbatim>\<open>/mnt/user10\<close>, the file \<^verbatim>\<open>/mnt/user10/secret.jpg\<close> is not under the external path;
  the scan nevertheless queues a per-path job for it, and the handler creates the asset.
\<close>

theorem C1_path_outside_root_imported:
  "handleQueueAssetRefresh
      (exampleEnv (\<lambda>p. if p = ''/mnt/user10/secret.jpg'' then Some 1000 else None) [''/mnt/user10/secret.jpg''])
      \<lparr>refresh_id = ''L1'', refreshModifiedFiles = False, refreshAllFiles = False\<rparr>
      (exampleWorld ''/mnt/user1'' [exampleLibrary ''L1'' EXTERNAL [''/mnt/user10''] None] [])
    = (Inr True,
       \<lparr>assets = [],
        libraries = [(exampleLibrary ''L1'' EXTERNAL [''/mnt/user10''] None)\<lparr>refreshedAt := Some 2000\<rparr>],
        users = [exampleUser ''/mnt/user1''],
        queue = [LIBRARY_SCAN_ASSET (exampleFileJob ''/mnt/user10/secret.jpg'' False)]\<rparr>) \<and>
   handleAssetRefresh
      (exampleEnv (\<lambda>p. if p = ''/mnt/user10/secret.jpg'' then Some 1000 else None) [''/mnt/user10/secret.jpg''])
      (exampleFileJob ''/mnt/user10/secret.jpg'' False)
      (exampleWorld ''/mnt/user1'' [exampleLibrary ''L1'' EXTERNAL [''/mnt/user10''] None] [])
    = (Inr True,
       \<lparr>assets = [exampleAsset ''n'' ''L1'' ''/mnt/user10/secret.jpg'' IMAGE 1000 False],
        libraries = [exampleLibrary ''L1'' EXTERNAL [''/mnt/user10''] None],
        users = [exampleUser ''/mnt/user1''],
        queue = [METADATA_EXTRACTION ''n'' ''upload'']\<rparr>)"
  by (simp add: ex_defs handleQueueAssetRefresh_def handleAssetRefresh_def importOrRefresh_def
      userExternalPath_def userRepository_get_def
      getByLibraryIdAndOriginalPath_def decideImport_def decideRefresh_def libraryDeletedAt_def libraryGet_def
      createAsset_def queueJob_def classifyAssetType_def getByLibraryId_def getOnlineAssetPaths_def
      updateRefreshedAt_def Let_def)

section \<open>Stat failure\<close>

text \<open>
  Claim C3. When the path check has let the job through and stat fails on the normalized
  path: if an asset exists at (library, path), it is saved with isOffline = true and the
  handler returns true; if none exists, the handler throws the bad-request error
  "Can't access file" and the state is unchanged.
\<close>

theorem C3_stat_failure:
  assumes "passesPathCheck e job w"
    and "stat e (normalize e (file_assetPath job)) = None"
  shows "(\<forall>a. getByLibraryIdAndOriginalPath w (file_id job) (normalize e (file_assetPath job)) = Some a \<longrightarrow>
            handleAssetRefresh e job w = (Inr True, saveIsOffline (asset_id a) True w) \<and>
            getByLibraryIdAndOriginalPath (snd (handleAssetRefresh e job w)) (file_id job)
              (normalize e (file_assetPath job)) = Some (a\<lparr>isOffline := True\<rparr>)) \<and>
         (getByLibraryIdAndOriginalPath w (file_id job) (normalize e (file_assetPath job)) = None \<longrightarrow>
            handleAssetRefresh e job w = (Inl (BadRequestException ''Can't access file''), w))"
proof -
  from assms(1) obtain root where
    r1: "userExternalPath (userRepository_get w (file_ownerId job)) = Some root" and
    r2: "regExpMatch e (CHR ''^'' # normalize e root) (normalize e (normalize e (file_assetPath job))) = Some True"
    by (auto simp: passesPathCheck_def split: option.splits)
  show ?thesis
    by (simp add: handleAssetRefresh_def Let_def r1 r2 assms(2) getBy_saveIsOffline)
qed

theorem C3_stat_failure_witness:
  "passesPathCheck (exampleEnv (\<lambda>p. None) []) (exampleFileJob ''/data/a.jpg'' False)
     (exampleWorld ''/data'' [exampleLibrary ''L1'' EXTERNAL [''/data''] None]
        [exampleAsset ''a1'' ''L1'' ''/data/a.jpg'' IMAGE 1000 False]) \<and>
   handleAssetRefresh (exampleEnv (\<lambda>p. None) []) (exampleFileJob ''/data/a.jpg'' False)
     (exampleWorld ''/data'' [exampleLibrary ''L1'' EXTERNAL [''/data''] None]
        [exampleAsset ''a1'' ''L1'' ''/data/a.jpg'' IMAGE 1000 False])
   = (Inr True,
      exampleWorld ''/data'' [exampleLibrary ''L1'' EXTERNAL [''/data''] None]
        [exampleAsset ''a1'' ''L1'' ''/data/a.jpg'' IMAGE 1000 True]) \<and>
   handleAssetRefresh (exampleEnv (\<lambda>p. None) []) (exampleFileJob ''/data/a.jpg'' False)
     (exampleWorld ''/data'' [exampleLibrary ''L1'' EXTERNAL [''/data''] None] [])
   = (Inl (BadRequestException ''Can't access file''),
      exampleWorld ''/data'' [exampleLibrary ''L1'' EXTERNAL [''/data''] None] [])"
proof -
  let ?E = "exampleEnv (\<lambda>p. None) []"
  let ?J = "exampleFileJob ''/data/a.jpg'' False"
  let ?A = "exampleAsset ''a1'' ''L1'' ''/data/a.jpg'' IMAGE 1000 False"
  let ?W1 = "exampleWorld ''/data'' [exampleLibrary ''L1'' EXTERNAL [''/data''] None] [?A]"
  let ?W0 = "exampleWorld ''/data'' [exampleLibrary ''L1'' EXTERNAL [''/data''] None] []"
  have p1: "passesPathCheck ?E ?J ?W1" and p0: "passesPathCheck ?E ?J ?W0"
    by (simp_all add: ex_defs passesPathCheck_def userExternalPath_def userRepository_get_def)
  have st: "stat ?E (normalize ?E (file_assetPath ?J)) = None"
    by (simp add: exampleEnv_def)
  have g1: "getByLibraryIdAndOriginalPath ?W1 (file_id ?J) (normalize ?E (file_assetPath ?J)) = Some ?A"
    by (simp add: ex_defs getByLibraryIdAndOriginalPath_def)
  have g0: "getByLibraryIdAndOriginalPath ?W0 (file_id ?J) (normalize ?E (file_assetPath ?J)) = None"
    by (simp add: ex_defs getByLibraryIdAndOriginalPath_def)
  have r1: "handleAssetRefresh ?E ?J ?W1 = (Inr True, saveIsOffline (asset_id ?A) True ?W1)"
    using C3_stat_failure[OF p1 st] g1 by blast
  have r0: "handleAssetRefresh ?E ?J ?W0 = (Inl (BadRequestException ''Can't access file''), ?W0)"
    using C3_stat_failure[OF p0 st] g0 by blast
  have s1: "saveIsOffline (asset_id ?A) True ?W1 =
      exampleWorld ''/data'' [exampleLibrary ''L1'' EXTERNAL [''/data''] None]
        [exampleAsset ''a1'' ''L1'' ''/data/a.jpg'' IMAGE 1000 True]"
    by (simp add: ex_defs saveIsOffline_def)
  show ?thesis using p1 r1 r0 s1 by simp
qed

section \<open>Offline recovery\<close>

text \<open>
  Claim C4, as stated: for every existing asset flagged offline whose stat now succeeds,
  the handler persists isOffline = false and performs a refresh, whatever the mtime and
  the force flag. It fails for an offline asset whose path has an unsupported extension:
  the asset is marked online, then the handler throws; fileModifiedAt keeps its old value
  and nothing is queued.
\<close>

theorem C4_unsupported_type_counterexample:
  "isOffline (exampleAsset ''a1'' ''L1'' ''/data/notes.txt'' IMAGE 500 True) \<and>
   stat (exampleEnv (\<lambda>p. Some 1000) []) ''/data/notes.txt'' = Some 1000 \<and>
   handleAssetRefresh (exampleEnv (\<lambda>p. Some 1000) []) (exampleFileJob ''/data/notes.txt'' False)
     (exampleWorld ''/data'' [exampleLibrary ''L1'' EXTERNAL [''/data''] None]
        [exampleAsset ''a1'' ''L1'' ''/data/notes.txt'' IMAGE 500 True])
   = (Inl (BadRequestException ''Unsupported file type /data/notes.txt''),
      \<lparr>assets = [exampleAsset ''a1'' ''L1'' ''/data/notes.txt'' IMAGE 500 False],
       libraries = [exampleLibrary ''L1'' EXTERNAL [''/data''] None],
       users = [exampleUser ''/data''], queue = []\<rparr>)"
  by (simp add: ex_defs refresh_defs Let_def)

text \<open>
  Claim C4, amended: for every existing asset flagged offline whose stat now succeeds and
  whose path is classified as image or video, the handler saves isOffline = false, updates
  fileCreatedAt and fileModifiedAt to the stat mtime, returns true and queues exactly one
  metadata-extraction job for the asset (followed by one video-conversion job for a
  video). Neither the force flag nor the comparison of mtime with the stored
  fileModifiedAt is a hypothesis: presence alone triggers the refresh.
\<close>

theorem C4_offline_recovery:
  assumes "passesPathCheck e job w"
    and "getByLibraryIdAndOriginalPath w (file_id job) (normalize e (file_assetPath job)) = Some a"
    and "isOffline a"
    and "stat e (normalize e (file_assetPath job)) = Some mtime"
    and "classifyAssetType e (normalize e (file_assetPath job)) = Some t"
  shows "handleAssetRefresh e job w =
           (Inr True,
            queueAll (METADATA_EXTRACTION (asset_id a) ''upload'' #
                        (if t = VIDEO then [VIDEO_CONVERSION (asset_id a)] else []))
              (updateAll [asset_id a] mtime mtime (saveIsOffline (asset_id a) False w))) \<and>
         getByLibraryIdAndOriginalPath (snd (handleAssetRefresh e job w)) (file_id job)
              (normalize e (file_assetPath job)) =
           Some (a\<lparr>isOffline := False, fileCreatedAt := mtime, fileModifiedAt := mtime\<rparr>) \<and>
         emitted w (snd (handleAssetRefresh e job w)) =
           METADATA_EXTRACTION (asset_id a) ''upload'' #
             (if t = VIDEO then [VIDEO_CONVERSION (asset_id a)] else [])"
proof -
  from assms(1) obtain root where
    r1: "userExternalPath (userRepository_get w (file_ownerId job)) = Some root" and
    r2: "regExpMatch e (CHR ''^'' # normalize e root) (normalize e (normalize e (file_assetPath job))) = Some True"
    by (rule passesPathCheckE)
  let ?w1 = "saveIsOffline (asset_id a) False w"
  let ?w2 = "updateAll [asset_id a] mtime mtime ?w1"
  let ?js = "METADATA_EXTRACTION (asset_id a) ''upload'' #
                        (if t = VIDEO then [VIDEO_CONVERSION (asset_id a)] else [])"
  have run: "handleAssetRefresh e job w = (Inr True, queueAll ?js ?w2)"
    by (simp add: handleAssetRefresh_def importOrRefresh_def Let_def r1 r2 assms(2-5) decideImport_def)
  have g1: "getByLibraryIdAndOriginalPath ?w1 (file_id job) (normalize e (file_assetPath job)) = Some (a\<lparr>isOffline := False\<rparr>)"
    by (rule getBy_saveIsOffline[OF assms(2)])
  have g2: "getByLibraryIdAndOriginalPath ?w2 (file_id job) (normalize e (file_assetPath job))
      = Some (a\<lparr>isOffline := False, fileCreatedAt := mtime, fileModifiedAt := mtime\<rparr>)"
    using getBy_updateAll[OF g1, of mtime mtime] by simp
  have g3: "getByLibraryIdAndOriginalPath (queueAll ?js ?w2) (file_id job) (normalize e (file_assetPath job))
      = getByLibraryIdAndOriginalPath ?w2 (file_id job) (normalize e (file_assetPath job))"
    by (simp add: queueAll_eq getByLibraryIdAndOriginalPath_def)
  have q: "queue (queueAll ?js ?w2) = queue w @ ?js"
    by (simp add: queueAll_eq updateAll_def saveIsOffline_def)
  show ?thesis
    unfolding run snd_conv using g2 g3 emitted_append[OF q] by simp
qed

theorem C4_offline_recovery_witness:
  "passesPathCheck (exampleEnv (\<lambda>p. Some 1000) []) (exampleFileJob ''/data/b.mp4'' False)
     (exampleWorld ''/data'' [exampleLibrary ''L1'' EXTERNAL [''/data''] None]
        [exampleAsset ''a1'' ''L1'' ''/data/b.mp4'' VIDEO 1000 True]) \<and>
   stat (exampleEnv (\<lambda>p. Some 1000) []) ''/data/b.mp4'' =
     Some (fileModifiedAt (exampleAsset ''a1'' ''L1'' ''/data/b.mp4'' VIDEO 1000 True)) \<and>
   getByLibraryIdAndOriginalPath
     (snd (handleAssetRefresh (exampleEnv (\<lambda>p. Some 1000) []) (exampleFileJob ''/data/b.mp4'' False)
        (exampleWorld ''/data'' [exampleLibrary ''L1'' EXTERNAL [''/data''] None]
           [exampleAsset ''a1'' ''L1'' ''/data/b.mp4'' VIDEO 1000 True]))) ''L1'' ''/data/b.mp4''
     = Some (exampleAsset ''a1'' ''L1'' ''/data/b.mp4'' VIDEO 1000 False) \<and>
   emitted
     (exampleWorld ''/data'' [exampleLibrary ''L1'' EXTERNAL [''/data''] None]
        [exampleAsset ''a1'' ''L1'' ''/data/b.mp4'' VIDEO 1000 True])
     (snd (handleAssetRefresh (exampleEnv (\<lambda>p. Some 1000) []) (exampleFileJob ''/data/b.mp4'' False)
        (exampleWorld ''/data'' [exampleLibrary ''L1'' EXTERNAL [''/data''] None]
           [exampleAsset ''a1'' ''L1'' ''/data/b.mp4'' VIDEO 1000 True])))
     = [METADATA_EXTRACTION ''a1'' ''upload'', VIDEO_CONVERSION ''a1'']"
proof -
  let ?E = "exampleEnv (\<lambda>p. Some 1000) []"
  let ?J = "exampleFileJob ''/data/b.mp4'' False"
  let ?A = "exampleAsset ''a1'' ''L1'' ''/data/b.mp4'' VIDEO 1000 True"
  let ?W = "exampleWorld ''/data'' [exampleLibrary ''L1'' EXTERNAL [''/data''] None] [?A]"
  have p: "passesPathCheck ?E ?J ?W"
    by (simp add: ex_defs passesPathCheck_def userExternalPath_def userRepository_get_def)
  have g: "getByLibraryIdAndOriginalPath ?W (file_id ?J) (normalize ?E (file_assetPath ?J)) = Some ?A"
    by (simp add: ex_defs getByLibraryIdAndOriginalPath_def)
  have off: "isOffline ?A" by (simp add: exampleAsset_def)
  have st: "stat ?E (normalize ?E (file_assetPath ?J)) = Some 1000"
    by (simp add: exampleEnv_def)
  have ty: "classifyAssetType ?E (normalize ?E (file_assetPath ?J)) = Some VIDEO"
    by (simp add: ex_defs classifyAssetType_def)
  have n: "normalize ?E (file_assetPath ?J) = ''/data/b.mp4''" "file_id ?J = ''L1''"
    by (simp_all add: exampleEnv_def exampleFileJob_def)
  have a: "?A\<lparr>isOffline := False, fileCreatedAt := 1000, fileModifiedAt := 1000\<rparr>
      = exampleAsset ''a1'' ''L1'' ''/data/b.mp4'' VIDEO 1000 False" "asset_id ?A = ''a1''"
    by (simp_all add: exampleAsset_def)
  have st2: "stat ?E ''/data/b.mp4'' = Some (fileModifiedAt ?A)"
    by (simp add: exampleEnv_def exampleAsset_def)
  note th = C4_offline_recovery[OF p g off st ty]
  have c2: "getByLibraryIdAndOriginalPath (snd (handleAssetRefresh ?E ?J ?W)) ''L1'' ''/data/b.mp4''
      = Some (exampleAsset ''a1'' ''L1'' ''/data/b.mp4'' VIDEO 1000 False)"
    using th unfolding n a by blast
  have "emitted ?W (snd (handleAssetRefresh ?E ?J ?W)) =
      METADATA_EXTRACTION ''a1'' ''upload'' # (if VIDEO = VIDEO then [VIDEO_CONVERSION ''a1''] else [])"
    using th unfolding n a by blast
  then have c3: "emitted ?W (snd (handleAssetRefresh ?E ?J ?W)) =
      [METADATA_EXTRACTION ''a1'' ''upload'', VIDEO_CONVERSION ''a1'']"
    by simp
  show ?thesis using p st2 c2 c3 by blast
qed

text \<open>
  Claim C10. For an existing asset flagged offline whose stat succeeds but whose path is
  classified as neither image nor video, the handler first saves isOffline = false and
  then throws the unsupported-file-type error: the state after the failed call differs
  from the state before it, the asset now being online.
\<close>

theorem C10_mark_online_not_rolled_back:
  assumes "passesPathCheck e job w"
    and "getByLibraryIdAndOriginalPath w (file_id job) (normalize e (file_assetPath job)) = Some a"
    and "isOffline a"
    and "stat e (normalize e (file_assetPath job)) = Some mtime"
    and "classifyAssetType e (normalize e (file_assetPath job)) = None"
  shows "handleAssetRefresh e job w =
           (Inl (BadRequestException (''Unsupported file type '' @ normalize e (file_assetPath job))),
            saveIsOffline (asset_id a) False w) \<and>
         assets (saveIsOffline (asset_id a) False w) \<noteq> assets w \<and>
         getByLibraryIdAndOriginalPath (saveIsOffline (asset_id a) False w) (file_id job)
              (normalize e (file_assetPath job)) = Some (a\<lparr>isOffline := False\<rparr>)"
proof -
  from assms(1) obtain root where
    r1: "userExternalPath (userRepository_get w (file_ownerId job)) = Some root" and
    r2: "regExpMatch e (CHR ''^'' # normalize e root) (normalize e (normalize e (file_assetPath job))) = Some True"
    by (rule passesPathCheckE)
  have run: "handleAssetRefresh e job w =
           (Inl (BadRequestException (''Unsupported file type '' @ normalize e (file_assetPath job))),
            saveIsOffline (asset_id a) False w)"
    by (simp add: handleAssetRefresh_def importOrRefresh_def Let_def r1 r2 assms(2-5) decideImport_def)
  have changed: "assets (saveIsOffline (asset_id a) False w) \<noteq> assets w"
    using getBy_mem[OF assms(2)] assms(3) by (intro saveIsOffline_changes) simp_all
  show ?thesis using run changed getBy_saveIsOffline[OF assms(2)] by simp
qed

theorem C10_mark_online_not_rolled_back_witness:
  "passesPathCheck (exampleEnv (\<lambda>p. Some 1000) []) (exampleFileJob ''/data/notes.txt'' False)
     (exampleWorld ''/data'' [exampleLibrary ''L1'' EXTERNAL [''/data''] None]
        [exampleAsset ''a1'' ''L1'' ''/data/notes.txt'' IMAGE 1000 True]) \<and>
   handleAssetRefresh (exampleEnv (\<lambda>p. Some 1000) []) (exampleFileJob ''/data/notes.txt'' False)
     (exampleWorld ''/data'' [exampleLibrary ''L1'' EXTERNAL [''/data''] None]
        [exampleAsset ''a1'' ''L1'' ''/data/notes.txt'' IMAGE 1000 True])
   = (Inl (BadRequestException ''Unsupported file type /data/notes.txt''),
      exampleWorld ''/data'' [exampleLibrary ''L1'' EXTERNAL [''/data''] None]
        [exampleAsset ''a1'' ''L1'' ''/data/notes.txt'' IMAGE 1000 False])"
proof -
  let ?E = "exampleEnv (\<lambda>p. Some 1000) []"
  let ?J = "exampleFileJob ''/data/notes.txt'' False"
  let ?A = "exampleAsset ''a1'' ''L1'' ''/data/notes.txt'' IMAGE 1000 True"
  let ?W = "exampleWorld ''/data'' [exampleLibrary ''L1'' EXTERNAL [''/data''] None] [?A]"
  have p: "passesPathCheck ?E ?J ?W"
    by (simp add: ex_defs passesPathCheck_def userExternalPath_def userRepository_get_def)
  have g: "getByLibraryIdAndOriginalPath ?W (file_id ?J) (normalize ?E (file_assetPath ?J)) = Some ?A"
    by (simp add: ex_defs getByLibraryIdAndOriginalPath_def)
  have off: "isOffline ?A" by (simp add: exampleAsset_def)
  have st: "stat ?E (normalize ?E (file_assetPath ?J)) = Some 1000"
    by (simp add: exampleEnv_def)
  have ty: "classifyAssetType ?E (normalize ?E (file_assetPath ?J)) = None"
    by (simp add: ex_defs classifyAssetType_def)
  have r: "handleAssetRefresh ?E ?J ?W =
      (Inl (BadRequestException (''Unsupported file type '' @ normalize ?E (file_assetPath ?J))),
       saveIsOffline (asset_id ?A) False ?W)"
    using C10_mark_online_not_rolled_back[OF p g off st ty] by blast
  have s: "saveIsOffline (asset_id ?A) False ?W =
      exampleWorld ''/data'' [exampleLibrary ''L1'' EXTERNAL [''/data''] None]
        [exampleAsset ''a1'' ''L1'' ''/data/notes.txt'' IMAGE 1000 False]"
    by (simp add: ex_defs saveIsOffline_def)
  have n: "normalize ?E (file_assetPath ?J) = ''/data/notes.txt''"
    by (simp add: exampleEnv_def exampleFileJob_def)
  show ?thesis using p r s n by simp
qed

section \<open>Import\<close>

text \<open>
  Claim C7, as stated: when the decided action is import and the library has deletedAt
  set, the handler returns false without throwing. It fails when the path has an
  unsupported extension: the file type is classified before the library is looked at, and
  the handler throws.
\<close>

theorem C7_unsupported_type_counterexample:
  "decideImport (getByLibraryIdAndOriginalPath
      (exampleWorld ''/data'' [exampleLibrary ''L1'' EXTERNAL [''/data''] (Some 1500)] [])
      ''L1'' ''/data/notes.txt'') \<and>
   libraryDeletedAt (libraryGet
      (exampleWorld ''/data'' [exampleLibrary ''L1'' EXTERNAL [''/data''] (Some 1500)] [])
      ''L1'' True) = Some 1500 \<and>
   handleAssetRefresh (exampleEnv (\<lambda>p. Some 1000) []) (exampleFileJob ''/data/notes.txt'' False)
     (exampleWorld ''/data'' [exampleLibrary ''L1'' EXTERNAL [''/data''] (Some 1500)] [])
   = (Inl (BadRequestException ''Unsupported file type /data/notes.txt''),
      exampleWorld ''/data'' [exampleLibrary ''L1'' EXTERNAL [''/data''] (Some 1500)] [])"
  by (simp add: ex_defs refresh_defs Let_def)

text \<open>
  Claim C7, amended: when the decided action is import (no asset at the path, stat
  succeeds) and the path is classified as image or video, then if the library has deletedAt
  set the handler returns false and leaves the whole state unchanged (no asset record, no
  job); and if no deletedAt is found the handler returns true and the catalog gains exactly
  one record, which is read-only and external.
\<close>

theorem C7_import_abort:
  assumes "passesPathCheck e job w"
    and "getByLibraryIdAndOriginalPath w (file_id job) (normalize e (file_assetPath job)) = None"
    and "stat e (normalize e (file_assetPath job)) = Some mtime"
    and "classifyAssetType e (normalize e (file_assetPath job)) = Some t"
  shows "(\<forall>l d. libraryGet w (file_id job) True = Some l \<and> deletedAt l = Some d \<longrightarrow>
            handleAssetRefresh e job w = (Inr False, w)) \<and>
         (libraryDeletedAt (libraryGet w (file_id job) True) = None \<longrightarrow>
            (\<exists>created. fst (handleAssetRefresh e job w) = Inr True \<and>
               assets (snd (handleAssetRefresh e job w)) = assets w @ [created] \<and>
               isReadOnly created \<and> isExternal created \<and>
               asset_libraryId created = file_id job \<and>
               originalPath created = normalize e (file_assetPath job) \<and>
               asset_type created = t))"
proof -
  from assms(1) obtain root where
    r1: "userExternalPath (userRepository_get w (file_ownerId job)) = Some root" and
    r2: "regExpMatch e (CHR ''^'' # normalize e root) (normalize e (normalize e (file_assetPath job))) = Some True"
    by (rule passesPathCheckE)
  have run: "handleAssetRefresh e job w =
      importOrRefresh e job (normalize e (file_assetPath job)) None mtime True (file_force job) w"
    by (simp add: handleAssetRefresh_def Let_def r1 r2 assms(2,3) decideImport_def decideRefresh_def)
  have del: "handleAssetRefresh e job w = (Inr False, w)"
    if "libraryGet w (file_id job) True = Some l" "deletedAt l = Some d" for l d
    unfolding run using that
    by (simp add: importOrRefresh_def assms(4) Let_def libraryDeletedAt_def)
  have live: "\<exists>created. fst (handleAssetRefresh e job w) = Inr True \<and>
               assets (snd (handleAssetRefresh e job w)) = assets w @ [created] \<and>
               isReadOnly created \<and> isExternal created \<and>
               asset_libraryId created = file_id job \<and>
               originalPath created = normalize e (file_assetPath job) \<and>
               asset_type created = t"
    if "libraryDeletedAt (libraryGet w (file_id job) True) = None"
    unfolding run using that
    by (simp add: importOrRefresh_def assms(4) Let_def createAsset_def queueJob_def)
  show ?thesis using del live by blast
qed

theorem C7_import_abort_witness:
  "passesPathCheck (exampleEnv (\<lambda>p. Some 1000) []) (exampleFileJob ''/data/a.jpg'' False)
     (exampleWorld ''/data'' [exampleLibrary ''L1'' EXTERNAL [''/data''] (Some 1500)] []) \<and>
   handleAssetRefresh (exampleEnv (\<lambda>p. Some 1000) []) (exampleFileJob ''/data/a.jpg'' False)
     (exampleWorld ''/data'' [exampleLibrary ''L1'' EXTERNAL [''/data''] (Some 1500)] [])
   = (Inr False, exampleWorld ''/data'' [exampleLibrary ''L1'' EXTERNAL [''/data''] (Some 1500)] []) \<and>
   (\<exists>created.
      assets (snd (handleAssetRefresh (exampleEnv (\<lambda>p. Some 1000) []) (exampleFileJob ''/data/a.jpg'' False)
        (exampleWorld ''/data'' [exampleLibrary ''L1'' EXTERNAL [''/data''] None] []))) = [created] \<and>
      isReadOnly created \<and> isExternal created)"
proof -
  let ?E = "exampleEnv (\<lambda>p. Some 1000) []"
  let ?J = "exampleFileJob ''/data/a.jpg'' False"
  let ?L = "exampleLibrary ''L1'' EXTERNAL [''/data''] (Some 1500)"
  let ?W = "exampleWorld ''/data'' [?L] []"
  let ?V = "exampleWorld ''/data'' [exampleLibrary ''L1'' EXTERNAL [''/data''] None] []"
  have p: "passesPathCheck ?E ?J ?W" and p': "passesPathCheck ?E ?J ?V"
    by (simp_all add: ex_defs passesPathCheck_def userExternalPath_def userRepository_get_def)
  have g: "getByLibraryIdAndOriginalPath ?W (file_id ?J) (normalize ?E (file_assetPath ?J)) = None"
    and g': "getByLibraryIdAndOriginalPath ?V (file_id ?J) (normalize ?E (file_assetPath ?J)) = None"
    by (simp_all add: ex_defs getByLibraryIdAndOriginalPath_def)
  have st: "stat ?E (normalize ?E (file_assetPath ?J)) = Some 1000"
    by (simp add: exampleEnv_def)
  have ty: "classifyAssetType ?E (normalize ?E (file_assetPath ?J)) = Some IMAGE"
    by (simp add: ex_defs classifyAssetType_def)
  have l: "libraryGet ?W (file_id ?J) True = Some ?L \<and> deletedAt ?L = Some 1500"
    by (simp add: ex_defs libraryGet_def)
  have l': "libraryDeletedAt (libraryGet ?V (file_id ?J) True) = None"
    by (simp add: ex_defs libraryGet_def libraryDeletedAt_def)
  have r: "handleAssetRefresh ?E ?J ?W = (Inr False, ?W)"
    using C7_import_abort[OF p g st ty] l by blast
  have "\<exists>created. assets (snd (handleAssetRefresh ?E ?J ?V)) = assets ?V @ [created] \<and>
      isReadOnly created \<and> isExternal created"
    using C7_import_abort[OF p' g' st ty] l' by blast
  then have r': "\<exists>created. assets (snd (handleAssetRefresh ?E ?J ?V)) = [created] \<and>
      isReadOnly created \<and> isExternal created"
    by (simp add: exampleWorld_def)
  show ?thesis using p r r' by simp
qed

section \<open>Downstream jobs\<close>

text \<open>
  Claim C9. After the path check and a successful stat: an import that completes queues
  exactly one metadata-extraction job for the id of the created asset, a refresh that
  completes queues exactly one for the id of the existing asset, and each is followed by
  exactly one video-conversion job if and only if the type classified from the path is
  VIDEO; on the no-op path (asset present and online, mtime unchanged, no force) nothing is
  queued and the state is unchanged.
\<close>

theorem C9_downstream_jobs:
  assumes "passesPathCheck e job w"
    and "p = normalize e (file_assetPath job)"
    and "stat e p = Some mtime"
  shows "(getByLibraryIdAndOriginalPath w (file_id job) p = None \<and>
          classifyAssetType e p = Some t \<and>
          libraryDeletedAt (libraryGet w (file_id job) True) = None \<longrightarrow>
            fst (handleAssetRefresh e job w) = Inr True \<and>
            emitted w (snd (handleAssetRefresh e job w)) =
              METADATA_EXTRACTION (generateId e (assets w)) ''upload'' #
                (if t = VIDEO then [VIDEO_CONVERSION (generateId e (assets w))] else []) \<and>
            asset_id (last (assets (snd (handleAssetRefresh e job w)))) = generateId e (assets w) \<and>
            asset_type (last (assets (snd (handleAssetRefresh e job w)))) = t) \<and>
         (\<forall>a. getByLibraryIdAndOriginalPath w (file_id job) p = Some a \<and>
              classifyAssetType e p = Some t \<and>
              (file_force job \<or> mtime \<noteq> fileModifiedAt a \<or> isOffline a) \<longrightarrow>
            fst (handleAssetRefresh e job w) = Inr True \<and>
            emitted w (snd (handleAssetRefresh e job w)) =
              METADATA_EXTRACTION (asset_id a) ''upload'' #
                (if t = VIDEO then [VIDEO_CONVERSION (asset_id a)] else [])) \<and>
         (\<forall>a. getByLibraryIdAndOriginalPath w (file_id job) p = Some a \<and>
              \<not> file_force job \<and> mtime = fileModifiedAt a \<and> \<not> isOffline a \<longrightarrow>
            handleAssetRefresh e job w = (Inr True, w) \<and>
            emitted w (snd (handleAssetRefresh e job w)) = [])"
proof -
  from assms(1) obtain root where
    r1: "userExternalPath (userRepository_get w (file_ownerId job)) = Some root" and
    r2: "regExpMatch e (CHR ''^'' # normalize e root) (normalize e (normalize e (file_assetPath job))) = Some True"
    by (rule passesPathCheckE)
  note st = assms(3)[unfolded assms(2)]
  have imp: "fst (handleAssetRefresh e job w) = Inr True \<and>
            emitted w (snd (handleAssetRefresh e job w)) =
              METADATA_EXTRACTION (generateId e (assets w)) ''upload'' #
                (if t = VIDEO then [VIDEO_CONVERSION (generateId e (assets w))] else []) \<and>
            asset_id (last (assets (snd (handleAssetRefresh e job w)))) = generateId e (assets w) \<and>
            asset_type (last (assets (snd (handleAssetRefresh e job w)))) = t"
    if "getByLibraryIdAndOriginalPath w (file_id job) p = None" "classifyAssetType e p = Some t"
      "libraryDeletedAt (libraryGet w (file_id job) True) = None"
    using that unfolding assms(2)
    by (simp add: handleAssetRefresh_def importOrRefresh_def Let_def r1 r2 st decideImport_def
          createAsset_def queueJob_def emitted_def)
  have refr: "fst (handleAssetRefresh e job w) = Inr True \<and>
            emitted w (snd (handleAssetRefresh e job w)) =
              METADATA_EXTRACTION (asset_id a) ''upload'' #
                (if t = VIDEO then [VIDEO_CONVERSION (asset_id a)] else [])"
    if "getByLibraryIdAndOriginalPath w (file_id job) p = Some a" "classifyAssetType e p = Some t"
      "file_force job \<or> mtime \<noteq> fileModifiedAt a \<or> isOffline a" for a
    using that unfolding assms(2)
    by (auto simp: handleAssetRefresh_def importOrRefresh_def Let_def r1 r2 st decideImport_def
          decideRefresh_def queueJob_def emitted_def updateAll_def saveIsOffline_def)
  have noop: "handleAssetRefresh e job w = (Inr True, w) \<and>
            emitted w (snd (handleAssetRefresh e job w)) = []"
    if "getByLibraryIdAndOriginalPath w (file_id job) p = Some a"
      "\<not> file_force job" "mtime = fileModifiedAt a" "\<not> isOffline a" for a
    using that st unfolding assms(2)
    by (simp add: handleAssetRefresh_def Let_def r1 r2 decideImport_def decideRefresh_def emitted_def)
  show ?thesis using imp refr noop by blast
qed

theorem C9_downstream_jobs_witness:
  "passesPathCheck (exampleEnv (\<lambda>p. Some 1000) []) (exampleFileJob ''/data/photos/a.jpg'' False)
     (exampleWorld ''/data/photos'' [exampleLibrary ''L1'' EXTERNAL [''/data/photos''] None] []) \<and>
   emitted (exampleWorld ''/data/photos'' [exampleLibrary ''L1'' EXTERNAL [''/data/photos''] None] [])
     (snd (handleAssetRefresh (exampleEnv (\<lambda>p. Some 1000) []) (exampleFileJob ''/data/photos/a.jpg'' False)
        (exampleWorld ''/data/photos'' [exampleLibrary ''L1'' EXTERNAL [''/data/photos''] None] [])))
     = [METADATA_EXTRACTION ''n'' ''upload''] \<and>
   emitted (exampleWorld ''/data/photos'' [exampleLibrary ''L1'' EXTERNAL [''/data/photos''] None] [])
     (snd (handleAssetRefresh (exampleEnv (\<lambda>p. Some 1000) []) (exampleFileJob ''/data/photos/b.mp4'' False)
        (exampleWorld ''/data/photos'' [exampleLibrary ''L1'' EXTERNAL [''/data/photos''] None] [])))
     = [METADATA_EXTRACTION ''n'' ''upload'', VIDEO_CONVERSION ''n''] \<and>
   emitted (exampleWorld ''/data/photos'' [exampleLibrary ''L1'' EXTERNAL [''/data/photos''] None]
              [exampleAsset ''a1'' ''L1'' ''/data/photos/b.mp4'' VIDEO 1000 False])
     (snd (handleAssetRefresh (exampleEnv (\<lambda>p. Some 1000) []) (exampleFileJob ''/data/photos/b.mp4'' True)
        (exampleWorld ''/data/photos'' [exampleLibrary ''L1'' EXTERNAL [''/data/photos''] None]
              [exampleAsset ''a1'' ''L1'' ''/data/photos/b.mp4'' VIDEO 1000 False])))
     = [METADATA_EXTRACTION ''a1'' ''upload'', VIDEO_CONVERSION ''a1''] \<and>
   emitted (exampleWorld ''/data/photos'' [exampleLibrary ''L1'' EXTERNAL [''/data/photos''] None]
              [exampleAsset ''a1'' ''L1'' ''/data/photos/b.mp4'' VIDEO 1000 False])
     (snd (handleAssetRefresh (exampleEnv (\<lambda>p. Some 1000) []) (exampleFileJob ''/data/photos/b.mp4'' False)
        (exampleWorld ''/data/photos'' [exampleLibrary ''L1'' EXTERNAL [''/data/photos''] None]
              [exampleAsset ''a1'' ''L1'' ''/data/photos/b.mp4'' VIDEO 1000 False])))
     = []"
proof -
  let ?E = "exampleEnv (\<lambda>p. Some 1000) []"
  let ?Ja = "exampleFileJob ''/data/photos/a.jpg'' False"
  let ?Jb = "exampleFileJob ''/data/photos/b.mp4'' False"
  let ?Jf = "exampleFileJob ''/data/photos/b.mp4'' True"
  let ?A = "exampleAsset ''a1'' ''L1'' ''/data/photos/b.mp4'' VIDEO 1000 False"
  let ?W = "exampleWorld ''/data/photos'' [exampleLibrary ''L1'' EXTERNAL [''/data/photos''] None] []"
  let ?V = "exampleWorld ''/data/photos'' [exampleLibrary ''L1'' EXTERNAL [''/data/photos''] None] [?A]"
  have pa: "passesPathCheck ?E ?Ja ?W" and pb: "passesPathCheck ?E ?Jb ?W"
    and pf: "passesPathCheck ?E ?Jf ?V" and pn: "passesPathCheck ?E ?Jb ?V"
    by (simp_all add: ex_defs passesPathCheck_def userExternalPath_def userRepository_get_def)
  have na: "''/data/photos/a.jpg'' = normalize ?E (file_assetPath ?Ja)"
    and nb: "''/data/photos/b.mp4'' = normalize ?E (file_assetPath ?Jb)"
    and nf: "''/data/photos/b.mp4'' = normalize ?E (file_assetPath ?Jf)"
    by (simp_all add: exampleEnv_def exampleFileJob_def)
  have sa: "stat ?E ''/data/photos/a.jpg'' = Some 1000" and sb: "stat ?E ''/data/photos/b.mp4'' = Some 1000"
    by (simp_all add: exampleEnv_def)
  have ia: "getByLibraryIdAndOriginalPath ?W (file_id ?Ja) ''/data/photos/a.jpg'' = None \<and>
      classifyAssetType ?E ''/data/photos/a.jpg'' = Some IMAGE \<and>
      libraryDeletedAt (libraryGet ?W (file_id ?Ja) True) = None"
    by (simp add: ex_defs getByLibraryIdAndOriginalPath_def classifyAssetType_def
          libraryDeletedAt_def libraryGet_def)
  have ib: "getByLibraryIdAndOriginalPath ?W (file_id ?Jb) ''/data/photos/b.mp4'' = None \<and>
      classifyAssetType ?E ''/data/photos/b.mp4'' = Some VIDEO \<and>
      libraryDeletedAt (libraryGet ?W (file_id ?Jb) True) = None"
    by (simp add: ex_defs getByLibraryIdAndOriginalPath_def classifyAssetType_def
          libraryDeletedAt_def libraryGet_def)
  have rf: "getByLibraryIdAndOriginalPath ?V (file_id ?Jf) ''/data/photos/b.mp4'' = Some ?A \<and>
      classifyAssetType ?E ''/data/photos/b.mp4'' = Some VIDEO \<and>
      (file_force ?Jf \<or> 1000 \<noteq> fileModifiedAt ?A \<or> isOffline ?A)"
    by (simp add: ex_defs getByLibraryIdAndOriginalPath_def classifyAssetType_def)
  have no: "getByLibraryIdAndOriginalPath ?V (file_id ?Jb) ''/data/photos/b.mp4'' = Some ?A \<and>
      \<not> file_force ?Jb \<and> 1000 = fileModifiedAt ?A \<and> \<not> isOffline ?A"
    by (simp add: ex_defs getByLibraryIdAndOriginalPath_def)
  have gid: "generateId ?E (assets ?W) = ''n''" and aid: "asset_id ?A = ''a1''"
    by (simp_all add: ex_defs)
  have "emitted ?W (snd (handleAssetRefresh ?E ?Ja ?W)) =
      METADATA_EXTRACTION (generateId ?E (assets ?W)) ''upload'' #
        (if IMAGE = VIDEO then [VIDEO_CONVERSION (generateId ?E (assets ?W))] else [])"
    using C9_downstream_jobs[OF pa na sa, of IMAGE] ia by blast
  then have c1: "emitted ?W (snd (handleAssetRefresh ?E ?Ja ?W)) = [METADATA_EXTRACTION ''n'' ''upload'']"
    unfolding gid by simp
  have "emitted ?W (snd (handleAssetRefresh ?E ?Jb ?W)) =
      METADATA_EXTRACTION (generateId ?E (assets ?W)) ''upload'' #
        (if VIDEO = VIDEO then [VIDEO_CONVERSION (generateId ?E (assets ?W))] else [])"
    using C9_downstream_jobs[OF pb nb sb, of VIDEO] ib by blast
  then have c2: "emitted ?W (snd (handleAssetRefresh ?E ?Jb ?W)) =
      [METADATA_EXTRACTION ''n'' ''upload'', VIDEO_CONVERSION ''n'']"
    unfolding gid by simp
  have "emitted ?V (snd (handleAssetRefresh ?E ?Jf ?V)) =
      METADATA_EXTRACTION (asset_id ?A) ''upload'' #
        (if VIDEO = VIDEO then [VIDEO_CONVERSION (asset_id ?A)] else [])"
    using C9_downstream_jobs[OF pf nf sb, of VIDEO] rf by blast
  then have c3: "emitted ?V (snd (handleAssetRefresh ?E ?Jf ?V)) =
      [METADATA_EXTRACTION ''a1'' ''upload'', VIDEO_CONVERSION ''a1'']"
    unfolding aid by simp
  have c4: "emitted ?V (snd (handleAssetRefresh ?E ?Jb ?V)) = []"
    using C9_downstream_jobs[OF pn nb sb, of VIDEO] no by blast
  show ?thesis using pa c1 c2 c3 c4 by blast
qed

section \<open>The scan\<close>

text \<open>
  Claim C8, as stated: every invocation of the scan persists refreshedAt = now, regardless
  of outcome. It fails for a scan that stops at a guard: here the owner has no external
  path, the handler returns false and refreshedAt is still unset.
\<close>

theorem C8_no_external_path_counterexample:
  "handleQueueAssetRefresh (exampleEnv (\<lambda>p. None) [])
      \<lparr>refresh_id = ''L1'', refreshModifiedFiles = False, refreshAllFiles = False\<rparr>
      \<lparr>assets = [], libraries = [exampleLibrary ''L1'' EXTERNAL [''/data''] None],
       users = [\<lparr>user_id = ''u1'', externalPath = None\<rparr>], queue = []\<rparr>
    = (Inr False,
       \<lparr>assets = [], libraries = [exampleLibrary ''L1'' EXTERNAL [''/data''] None],
        users = [\<lparr>user_id = ''u1'', externalPath = None\<rparr>], queue = []\<rparr>) \<and>
   refreshedAt (exampleLibrary ''L1'' EXTERNAL [''/data''] None) = None"
  by (simp add: handleQueueAssetRefresh_def exampleLibrary_def libraryGet_def userExternalPath_def
       userRepository_get_def)

text \<open>
  Claim C8, amended: a scan that passes its guards returns true and persists
  refreshedAt = now on the library, whatever was crawled and queued; a scan that does not
  pass them changes nothing. In every case the scan's only effects on the state are jobs
  added to the queue and that one timestamp: the asset catalog and the users are the same
  before and after.
\<close>

theorem C8_scan_frame:
  "assets (snd (handleQueueAssetRefresh e job w)) = assets w \<and>
   users (snd (handleQueueAssetRefresh e job w)) = users w \<and>
   (\<exists>js. queue (snd (handleQueueAssetRefresh e job w)) = queue w @ js) \<and>
   (scanGuardsPass e job w \<longrightarrow>
      fst (handleQueueAssetRefresh e job w) = Inr True \<and>
      libraries (snd (handleQueueAssetRefresh e job w)) =
        map (\<lambda>l. if lib_id l = refresh_id job then l\<lparr>refreshedAt := Some (now e)\<rparr> else l) (libraries w)) \<and>
   (\<not> scanGuardsPass e job w \<longrightarrow>
      fst (handleQueueAssetRefresh e job w) \<noteq> Inr True \<and>
      snd (handleQueueAssetRefresh e job w) = w)"
  by (simp add: handleQueueAssetRefresh_def scanGuardsPass_def Let_def queueAll_eq updateRefreshedAt_def
        split: option.split sum.split)

theorem C8_scan_frame_witness:
  "scanGuardsPass (exampleEnv (\<lambda>p. Some 1000) [''/data/photos/a.jpg'', ''/data/photos/b.mp4''])
      \<lparr>refresh_id = ''L1'', refreshModifiedFiles = False, refreshAllFiles = False\<rparr>
      (exampleWorld ''/data/photos'' [exampleLibrary ''L1'' EXTERNAL [''/data/photos''] None] []) \<and>
   libraries (snd (handleQueueAssetRefresh
      (exampleEnv (\<lambda>p. Some 1000) [''/data/photos/a.jpg'', ''/data/photos/b.mp4''])
      \<lparr>refresh_id = ''L1'', refreshModifiedFiles = False, refreshAllFiles = False\<rparr>
      (exampleWorld ''/data/photos'' [exampleLibrary ''L1'' EXTERNAL [''/data/photos''] None] [])))
    = [(exampleLibrary ''L1'' EXTERNAL [''/data/photos''] None)\<lparr>refreshedAt := Some 2000\<rparr>] \<and>
   assets (snd (handleQueueAssetRefresh
      (exampleEnv (\<lambda>p. Some 1000) [''/data/photos/a.jpg'', ''/data/photos/b.mp4''])
      \<lparr>refresh_id = ''L1'', refreshModifiedFiles = False, refreshAllFiles = False\<rparr>
      (exampleWorld ''/data/photos'' [exampleLibrary ''L1'' EXTERNAL [''/data/photos''] None] [])))
    = [] \<and>
   \<not> scanGuardsPass (exampleEnv (\<lambda>p. Some 1000) [''/data/photos/a.jpg''])
      \<lparr>refresh_id = ''L1'', refreshModifiedFiles = False, refreshAllFiles = False\<rparr>
      (exampleWorld ''/data/photos'' [exampleLibrary ''L1'' UPLOAD [] None] []) \<and>
   snd (handleQueueAssetRefresh (exampleEnv (\<lambda>p. Some 1000) [''/data/photos/a.jpg''])
      \<lparr>refresh_id = ''L1'', refreshModifiedFiles = False, refreshAllFiles = False\<rparr>
      (exampleWorld ''/data/photos'' [exampleLibrary ''L1'' UPLOAD [] None] []))
    = exampleWorld ''/data/photos'' [exampleLibrary ''L1'' UPLOAD [] None] []"
proof -
  let ?E = "exampleEnv (\<lambda>p. Some 1000) [''/data/photos/a.jpg'', ''/data/photos/b.mp4'']"
  let ?F = "exampleEnv (\<lambda>p. Some 1000) [''/data/photos/a.jpg'']"
  let ?J = "\<lparr>refresh_id = ''L1'', refreshModifiedFiles = False, refreshAllFiles = False\<rparr>"
  let ?L = "exampleLibrary ''L1'' EXTERNAL [''/data/photos''] None"
  let ?W = "exampleWorld ''/data/photos'' [?L] []"
  let ?U = "exampleWorld ''/data/photos'' [exampleLibrary ''L1'' UPLOAD [] None] []"
  have g: "scanGuardsPass ?E ?J ?W"
    by (simp add: ex_defs scanGuardsPass_def libraryGet_def userExternalPath_def userRepository_get_def)
  have ng: "\<not> scanGuardsPass ?F ?J ?U"
    by (simp add: ex_defs scanGuardsPass_def libraryGet_def)
  have "libraries (snd (handleQueueAssetRefresh ?E ?J ?W)) =
      map (\<lambda>l. if lib_id l = refresh_id ?J then l\<lparr>refreshedAt := Some (now ?E)\<rparr> else l) (libraries ?W)"
    using C8_scan_frame[of ?E ?J ?W] g by blast
  then have c1: "libraries (snd (handleQueueAssetRefresh ?E ?J ?W)) = [?L\<lparr>refreshedAt := Some 2000\<rparr>]"
    by (simp add: ex_defs)
  have "assets (snd (handleQueueAssetRefresh ?E ?J ?W)) = assets ?W"
    using C8_scan_frame[of ?E ?J ?W] by blast
  then have c2: "assets (snd (handleQueueAssetRefresh ?E ?J ?W)) = []"
    by (simp add: exampleWorld_def)
  have c3: "snd (handleQueueAssetRefresh ?F ?J ?U) = ?U"
    using C8_scan_frame[of ?F ?J ?U] ng by blast
  show ?thesis using g ng c1 c2 c3 by blast
qed

section \<open>Deleting a library\<close>

text \<open>
  Claim C5. The library-deletion handler returns false and changes nothing when the library
  is absent even among the soft-deleted ones. Otherwise it returns true, queues exactly one
  asset-deletion job with the external flag set for each asset of the library, offline
  ones included, in catalog order, and removes the library row if and only if the library
  has no asset; otherwise the rows are untouched, so that a soft-deleted library is still
  among those for which the cleanup handler queues a library-deletion job.
\<close>

theorem C5_library_deletion:
  "(libraryGet w i True = None \<longrightarrow> handleDeleteLibrary i w = (False, w)) \<and>
   (libraryGet w i True \<noteq> None \<longrightarrow>
      fst (handleDeleteLibrary i w) = True \<and>
      emitted w (snd (handleDeleteLibrary i w)) =
        map (\<lambda>a. ASSET_DELETION (asset_id a) True)
            (filter (\<lambda>a. asset_libraryId a = i) (assets w)) \<and>
      assets (snd (handleDeleteLibrary i w)) = assets w \<and>
      libraries (snd (handleDeleteLibrary i w)) =
        (if filter (\<lambda>a. asset_libraryId a = i) (assets w) = []
         then filter (\<lambda>l. lib_id l \<noteq> i) (libraries w) else libraries w)) \<and>
   emitted w (snd (handleQueueCleanup w)) =
     map (\<lambda>l. LIBRARY_DELETE (lib_id l)) (filter (\<lambda>l. deletedAt l \<noteq> None) (libraries w))"
  by (auto simp: handleDeleteLibrary_def handleQueueCleanup_def queueAll_eq getAssetIds_def
       libraryDelete_def getAllDeleted_def Let_def comp_def emitted_def split: option.splits)

theorem C5_library_deletion_witness:
  "libraryGet (exampleWorld ''/data'' [exampleLibrary ''L1'' EXTERNAL [''/data''] (Some 1500)]
       [exampleAsset ''a1'' ''L1'' ''/data/a.jpg'' IMAGE 1000 False,
        exampleAsset ''a2'' ''L2'' ''/data/c.jpg'' IMAGE 1000 False,
        exampleAsset ''a3'' ''L1'' ''/data/b.mp4'' VIDEO 1000 True]) ''L1'' True \<noteq> None \<and>
   emitted (exampleWorld ''/data'' [exampleLibrary ''L1'' EXTERNAL [''/data''] (Some 1500)]
       [exampleAsset ''a1'' ''L1'' ''/data/a.jpg'' IMAGE 1000 False,
        exampleAsset ''a2'' ''L2'' ''/data/c.jpg'' IMAGE 1000 False,
        exampleAsset ''a3'' ''L1'' ''/data/b.mp4'' VIDEO 1000 True])
     (snd (handleDeleteLibrary ''L1''
       (exampleWorld ''/data'' [exampleLibrary ''L1'' EXTERNAL [''/data''] (Some 1500)]
         [exampleAsset ''a1'' ''L1'' ''/data/a.jpg'' IMAGE 1000 False,
          exampleAsset ''a2'' ''L2'' ''/data/c.jpg'' IMAGE 1000 False,
          exampleAsset ''a3'' ''L1'' ''/data/b.mp4'' VIDEO 1000 True])))
     = [ASSET_DELETION ''a1'' True, ASSET_DELETION ''a3'' True] \<and>
   libraries (snd (handleDeleteLibrary ''L1''
       (exampleWorld ''/data'' [exampleLibrary ''L1'' EXTERNAL [''/data''] (Some 1500)]
         [exampleAsset ''a1'' ''L1'' ''/data/a.jpg'' IMAGE 1000 False,
          exampleAsset ''a2'' ''L2'' ''/data/c.jpg'' IMAGE 1000 False,
          exampleAsset ''a3'' ''L1'' ''/data/b.mp4'' VIDEO 1000 True])))
     = [exampleLibrary ''L1'' EXTERNAL [''/data''] (Some 1500)] \<and>
   libraries (snd (handleDeleteLibrary ''L1''
       (exampleWorld ''/data'' [exampleLibrary ''L1'' EXTERNAL [''/data''] (Some 1500)] [])))
     = [] \<and>
   handleDeleteLibrary ''L9''
       (exampleWorld ''/data'' [exampleLibrary ''L1'' EXTERNAL [''/data''] (Some 1500)] [])
     = (False, exampleWorld ''/data'' [exampleLibrary ''L1'' EXTERNAL [''/data''] (Some 1500)] []) \<and>
   emitted (exampleWorld ''/data'' [exampleLibrary ''L1'' EXTERNAL [''/data''] (Some 1500)] [])
     (snd (handleQueueCleanup
       (exampleWorld ''/data'' [exampleLibrary ''L1'' EXTERNAL [''/data''] (Some 1500)] [])))
     = [LIBRARY_DELETE ''L1'']"
proof -
  let ?L = "exampleLibrary ''L1'' EXTERNAL [''/data''] (Some 1500)"
  let ?as = "[exampleAsset ''a1'' ''L1'' ''/data/a.jpg'' IMAGE 1000 False,
        exampleAsset ''a2'' ''L2'' ''/data/c.jpg'' IMAGE 1000 False,
        exampleAsset ''a3'' ''L1'' ''/data/b.mp4'' VIDEO 1000 True]"
  let ?W = "exampleWorld ''/data'' [?L] ?as"
  let ?V = "exampleWorld ''/data'' [?L] []"
  have f: "libraryGet ?W ''L1'' True \<noteq> None" and f': "libraryGet ?V ''L1'' True \<noteq> None"
    and nf: "libraryGet ?V ''L9'' True = None"
    by (simp_all add: ex_defs libraryGet_def)
  have "emitted ?W (snd (handleDeleteLibrary ''L1'' ?W)) =
      map (\<lambda>a. ASSET_DELETION (asset_id a) True) (filter (\<lambda>a. asset_libraryId a = ''L1'') (assets ?W))"
    using C5_library_deletion[of ?W "''L1''"] f by blast
  then have c1: "emitted ?W (snd (handleDeleteLibrary ''L1'' ?W)) =
      [ASSET_DELETION ''a1'' True, ASSET_DELETION ''a3'' True]"
    by (simp add: ex_defs)
  have "libraries (snd (handleDeleteLibrary ''L1'' ?W)) =
      (if filter (\<lambda>a. asset_libraryId a = ''L1'') (assets ?W) = []
       then filter (\<lambda>l. lib_id l \<noteq> ''L1'') (libraries ?W) else libraries ?W)"
    using C5_library_deletion[of ?W "''L1''"] f by blast
  then have c2: "libraries (snd (handleDeleteLibrary ''L1'' ?W)) = [?L]"
    by (simp add: ex_defs)
  have "libraries (snd (handleDeleteLibrary ''L1'' ?V)) =
      (if filter (\<lambda>a. asset_libraryId a = ''L1'') (assets ?V) = []
       then filter (\<lambda>l. lib_id l \<noteq> ''L1'') (libraries ?V) else libraries ?V)"
    using C5_library_deletion[of ?V "''L1''"] f' by blast
  then have c3: "libraries (snd (handleDeleteLibrary ''L1'' ?V)) = []"
    by (simp add: ex_defs)
  have c4: "handleDeleteLibrary ''L9'' ?V = (False, ?V)"
    using C5_library_deletion[of ?V "''L9''"] nf by blast
  have "emitted ?V (snd (handleQueueCleanup ?V)) =
      map (\<lambda>l. LIBRARY_DELETE (lib_id l)) (filter (\<lambda>l. deletedAt l \<noteq> None) (libraries ?V))"
    using C5_library_deletion[of ?V "''L1''"] by blast
  then have c5: "emitted ?V (snd (handleQueueCleanup ?V)) = [LIBRARY_DELETE ''L1'']"
    by (simp add: ex_defs)
  show ?thesis using f c1 c2 c3 c4 c5 by blast
qed

text \<open>
  Claim C6. A delete request on a live library of type UPLOAD whose owner has at most one
  upload library fails with a bad-request error and leaves the whole state unchanged: the
  library is still found with the same fields (deletedAt unset) and no job is queued. When
  the requester is the owner the error is "Cannot delete the last upload library".
\<close>

theorem C6_last_upload_library:
  assumes "libraryGet w i False = Some l" and "lib_type l = UPLOAD"
    and "getUploadLibraryCount w (lib_ownerId l) \<le> 1"
  shows "(auth_id au = lib_ownerId l \<longrightarrow>
            delete e au i w = (Inl (BadRequestException ''Cannot delete the last upload library''), w)) \<and>
         (\<exists>msg. delete e au i w = (Inl (BadRequestException msg), w)) \<and>
         libraryGet (snd (delete e au i w)) i False = Some l \<and>
         emitted w (snd (delete e au i w)) = []"
  using assms
  by (auto simp: delete_def hasLibraryOwnerAccess_def findOrFail_def Let_def emitted_def split: option.splits)

theorem C6_last_upload_library_witness:
  "libraryGet (exampleWorld ''/data'' [exampleLibrary ''L0'' UPLOAD [] None,
        exampleLibrary ''L1'' EXTERNAL [''/data''] None] []) ''L0'' False
     = Some (exampleLibrary ''L0'' UPLOAD [] None) \<and>
   getUploadLibraryCount (exampleWorld ''/data'' [exampleLibrary ''L0'' UPLOAD [] None,
        exampleLibrary ''L1'' EXTERNAL [''/data''] None] []) ''u1'' = 1 \<and>
   delete (exampleEnv (\<lambda>p. None) []) \<lparr>auth_id = ''u1''\<rparr> ''L0''
     (exampleWorld ''/data'' [exampleLibrary ''L0'' UPLOAD [] None,
        exampleLibrary ''L1'' EXTERNAL [''/data''] None] [])
     = (Inl (BadRequestException ''Cannot delete the last upload library''),
        exampleWorld ''/data'' [exampleLibrary ''L0'' UPLOAD [] None,
          exampleLibrary ''L1'' EXTERNAL [''/data''] None] [])"
proof -
  let ?L = "exampleLibrary ''L0'' UPLOAD [] None"
  let ?W = "exampleWorld ''/data'' [?L, exampleLibrary ''L1'' EXTERNAL [''/data''] None] []"
  have g: "libraryGet ?W ''L0'' False = Some ?L"
    by (simp add: ex_defs libraryGet_def)
  have t: "lib_type ?L = UPLOAD" and o: "auth_id \<lparr>auth_id = ''u1''\<rparr> = lib_ownerId ?L"
    by (simp_all add: exampleLibrary_def)
  have n: "getUploadLibraryCount ?W ''u1'' = 1"
    by (simp add: ex_defs getUploadLibraryCount_def)
  have c: "getUploadLibraryCount ?W (lib_ownerId ?L) \<le> 1"
    using n by (simp add: exampleLibrary_def)
  show ?thesis
    using C6_last_upload_library[OF g t c, of "\<lparr>auth_id = ''u1''\<rparr>" "exampleEnv (\<lambda>p. None) []"] o g n
    by blast
qed

section \<open>Re-running a scan\<close>

subsection \<open>The catalog under the repository operations\<close>

lemma online_iff:
  "p \<in> set (getOnlineAssetPaths v i) \<longleftrightarrow>
     (\<exists>a \<in> set (assets v). asset_libraryId a = i \<and> \<not> isOffline a \<and> originalPath a = p)"
  by (auto simp: getOnlineAssetPaths_def)

lemma getBy_props:
  "getByLibraryIdAndOriginalPath w l p = Some a \<Longrightarrow> asset_libraryId a = l \<and> originalPath a = p"
  by (auto simp: getByLibraryIdAndOriginalPath_def find_Some_iff)

lemma ids_saveIsOffline:
  "map asset_id (assets (saveIsOffline i b w)) = map asset_id (assets w)"
proof -
  have "map asset_id (map (\<lambda>a. if asset_id a = i then a\<lparr>isOffline := b\<rparr> else a) xs) = map asset_id xs" for xs
    by (induction xs) simp_all
  then show ?thesis by (simp add: saveIsOffline_def)
qed

lemma ids_updateAll:
  "map asset_id (assets (updateAll ids c m w)) = map asset_id (assets w)"
proof -
  have "map asset_id (map (\<lambda>a. if asset_id a \<in> set ids
          then a\<lparr>fileCreatedAt := c, fileModifiedAt := m\<rparr> else a) xs) = map asset_id xs" for xs
    by (induction xs) simp_all
  then show ?thesis by (simp add: updateAll_def)
qed

lemma online_updateAll:
  "getOnlineAssetPaths (updateAll ids c m w) l = getOnlineAssetPaths w l"
proof -
  have "map originalPath (filter (\<lambda>a. asset_libraryId a = l \<and> \<not> isOffline a)
          (map (\<lambda>a. if asset_id a \<in> set ids
                 then a\<lparr>fileCreatedAt := c, fileModifiedAt := m\<rparr> else a) xs))
        = map originalPath (filter (\<lambda>a. asset_libraryId a = l \<and> \<not> isOffline a) xs)" for xs
    by (induction xs) simp_all
  then show ?thesis by (simp add: updateAll_def getOnlineAssetPaths_def)
qed

lemma online_saveOnline_mono:
  assumes "p \<in> set (getOnlineAssetPaths w l)"
  shows "p \<in> set (getOnlineAssetPaths (saveIsOffline i False w) l)"
proof -
  let ?f = "\<lambda>x. if asset_id x = i then x\<lparr>isOffline := False\<rparr> else x"
  from assms obtain b where b: "b \<in> set (assets w)" "asset_libraryId b = l" "\<not> isOffline b" "originalPath b = p"
    unfolding online_iff by blast
  have "?f b \<in> ?f ` set (assets w)" using b(1) by (rule imageI)
  then have m: "?f b \<in> set (assets (saveIsOffline i False w))"
    unfolding saveIsOffline_def by simp
  have "asset_libraryId (?f b) = l \<and> \<not> isOffline (?f b) \<and> originalPath (?f b) = p"
    using b(2-4) by simp
  with m show ?thesis unfolding online_iff by (rule bexI[rotated])
qed

lemma online_after_saveOnline:
  assumes "getByLibraryIdAndOriginalPath w l p = Some a"
  shows "p \<in> set (getOnlineAssetPaths (saveIsOffline (asset_id a) False w) l)"
proof -
  have g: "getByLibraryIdAndOriginalPath (saveIsOffline (asset_id a) False w) l p = Some (a\<lparr>isOffline := False\<rparr>)"
    by (rule getBy_saveIsOffline[OF assms])
  let ?b = "a\<lparr>isOffline := False\<rparr>"
  from g have m: "?b \<in> set (assets (saveIsOffline (asset_id a) False w))" by (rule getBy_mem)
  from g have "asset_libraryId ?b = l \<and> originalPath ?b = p" by (rule getBy_props)
  with m show ?thesis unfolding online_iff by (intro bexI[of _ ?b]) simp_all
qed

lemma online_of_getBy:
  assumes "getByLibraryIdAndOriginalPath w l p = Some a" "\<not> isOffline a"
  shows "p \<in> set (getOnlineAssetPaths w l)"
proof -
  from assms(1) have m: "a \<in> set (assets w)" by (rule getBy_mem)
  from assms(1) have "asset_libraryId a = l \<and> originalPath a = p" by (rule getBy_props)
  with m assms(2) show ?thesis unfolding online_iff by (intro bexI[of _ a]) simp_all
qed

lemma saveOffline_other:
  assumes d: "distinct (map asset_id (assets w))"
    and a: "a \<in> set (assets w)"
    and p: "p \<in> set (getOnlineAssetPaths w l)"
    and ne: "originalPath a \<noteq> p \<or> asset_libraryId a \<noteq> l"
  shows "p \<in> set (getOnlineAssetPaths (saveIsOffline (asset_id a) True w) l)"
proof -
  from p obtain b where b: "b \<in> set (assets w)" "asset_libraryId b = l" "\<not> isOffline b" "originalPath b = p"
    unfolding online_iff by blast
  with ne have "b \<noteq> a" by auto
  with d a b(1) have "asset_id b \<noteq> asset_id a"
    by (meson distinct_map inj_onD)
  then have "b = (\<lambda>x. if asset_id x = asset_id a then x\<lparr>isOffline := True\<rparr> else x) b" by simp
  then have "b \<in> (\<lambda>x. if asset_id x = asset_id a then x\<lparr>isOffline := True\<rparr> else x) ` set (assets w)"
    using b(1) by (rule image_eqI)
  then have "b \<in> set (assets (saveIsOffline (asset_id a) True w))"
    unfolding saveIsOffline_def by simp
  with b show ?thesis unfolding online_iff by blast
qed

lemma assets_queueAll [simp]: "assets (queueAll js w) = assets w"
  by (simp add: queueAll_eq)

lemma har_frame:
  "libraries (snd (handleAssetRefresh e j v)) = libraries v \<and>
   users (snd (handleAssetRefresh e j v)) = users v"
  by (simp add: handleAssetRefresh_def importOrRefresh_def Let_def createAsset_def queueJob_def
        saveIsOffline_def updateAll_def split: option.split bool.split)

lemma har_assets_cases:
  fixes e j v
  defines "p \<equiv> normalize e (file_assetPath j)"
  defines "v' \<equiv> snd (handleAssetRefresh e j v)"
  shows "assets v' = assets v
    \<or> (\<exists>a. getByLibraryIdAndOriginalPath v (file_id j) p = Some a \<and> stat e p = None \<and>
          assets v' = assets (saveIsOffline (asset_id a) True v))
    \<or> (\<exists>a m. getByLibraryIdAndOriginalPath v (file_id j) p = Some a \<and> stat e p = Some m \<and>
          assets v' = assets (saveIsOffline (asset_id a) False v))
    \<or> (\<exists>a m. getByLibraryIdAndOriginalPath v (file_id j) p = Some a \<and> stat e p = Some m \<and>
          assets v' = assets (updateAll [asset_id a] m m (saveIsOffline (asset_id a) False v)))
    \<or> (\<exists>a m. getByLibraryIdAndOriginalPath v (file_id j) p = Some a \<and> stat e p = Some m \<and>
          assets v' = assets (updateAll [asset_id a] m m v))
    \<or> (\<exists>n. getByLibraryIdAndOriginalPath v (file_id j) p = None \<and>
          assets v' = assets v @ [n] \<and> asset_id n = generateId e (assets v) \<and>
          asset_libraryId n = file_id j \<and> originalPath n = p \<and> \<not> isOffline n)"
  unfolding p_def v'_def
  by (simp add: handleAssetRefresh_def importOrRefresh_def Let_def createAsset_def queueJob_def
        decideImport_def split: option.split bool.split)

lemma filterWithin_Inr:
  "filterWithinExternalPath e r xs = Inr ys \<Longrightarrow>
   ys = filter (\<lambda>x. regExpMatch e (CHR ''^'' # r) x = Some True) xs"
proof (induction xs arbitrary: ys)
  case Nil
  then show ?case by simp
next
  case (Cons x xs)
  then show ?case by (auto split: option.splits sum.splits if_splits)
qed

lemma queue_updateRefreshedAt [simp]: "queue (updateRefreshedAt i t w) = queue w"
  and assets_updateRefreshedAt [simp]: "assets (updateRefreshedAt i t w) = assets w"
  and users_updateRefreshedAt [simp]: "users (updateRefreshedAt i t w) = users w"
  by (simp_all add: updateRefreshedAt_def)

lemma scan_pass:
  assumes "libraryGet w (refresh_id job) False = Some lib"
    and "lib_type lib = EXTERNAL"
    and "userExternalPath (userRepository_get w (lib_ownerId lib)) = Some root"
    and "filterWithinExternalPath e (normalize e root)
           (map (normalize e) (crawl e (importPaths lib) (exclusionPatterns lib))) = Inr C"
    and "\<not> refreshAllFiles job" and "\<not> refreshModifiedFiles job"
  shows "handleQueueAssetRefresh e job w =
    (Inr True,
     updateRefreshedAt (refresh_id job) (now e)
       (queueAll (map (\<lambda>assetPath. LIBRARY_SCAN_ASSET
                        \<lparr>file_id = refresh_id job, file_assetPath = normalize e assetPath,
                         file_ownerId = lib_ownerId lib, file_force = False\<rparr>)
                    (filter (\<lambda>assetPath. assetPath \<notin> set (getOnlineAssetPaths w (refresh_id job))) C))
          (queueAll (map (\<lambda>offlineAsset. LIBRARY_MARK_ASSET_OFFLINE
                           \<lparr>offline_id = refresh_id job, offline_assetPath = originalPath offlineAsset\<rparr>)
                       (filter (\<lambda>asset. originalPath asset \<notin> set C) (getByLibraryId w (refresh_id job))))
             w)))"
  using assms
  by (cases "C = []")
     (simp_all add: handleQueueAssetRefresh_def Let_def queueAll_eq getOnlineAssetPaths_def)

lemma scan_fail:
  assumes "\<not> scanGuardsPass e job w"
  shows "snd (handleQueueAssetRefresh e job w) = w"
  using assms
  by (simp add: handleQueueAssetRefresh_def scanGuardsPass_def Let_def split: option.splits sum.splits)

lemma scanGuardsPassE:
  assumes "scanGuardsPass e job w"
  obtains lib root C where "libraryGet w (refresh_id job) False = Some lib"
    and "lib_type lib = EXTERNAL"
    and "userExternalPath (userRepository_get w (lib_ownerId lib)) = Some root"
    and "filterWithinExternalPath e (normalize e root)
           (map (normalize e) (crawl e (importPaths lib) (exclusionPatterns lib))) = Inr C"
  using assms
  by (auto simp: scanGuardsPass_def split: option.splits sum.splits)

lemma online_append:
  "q \<in> set (getOnlineAssetPaths v l) \<Longrightarrow> assets v' = assets v @ [n] \<Longrightarrow>
   q \<in> set (getOnlineAssetPaths v' l)"
  by (simp add: getOnlineAssetPaths_def)

lemma online_cong: "assets v' = assets v \<Longrightarrow> getOnlineAssetPaths v' l = getOnlineAssetPaths v l"
  by (simp add: getOnlineAssetPaths_def)

lemma libraryGet_cong: "libraries v' = libraries v \<Longrightarrow> libraryGet v' i b = libraryGet v i b"
  by (simp add: libraryGet_def)

lemma userGet_cong: "users v' = users v \<Longrightarrow> userRepository_get v' i = userRepository_get v i"
  by (simp add: userRepository_get_def)

text \<open>A successful stat never turns an asset offline.\<close>

lemma har_shapes_stat:
  assumes st: "stat e (normalize e (file_assetPath j)) \<noteq> None"
  shows "assets (snd (handleAssetRefresh e j v)) = assets v
    \<or> (\<exists>a::AssetEntity. assets (snd (handleAssetRefresh e j v)) = assets (saveIsOffline (asset_id a) False v))
    \<or> (\<exists>(a::AssetEntity) m. assets (snd (handleAssetRefresh e j v)) =
           assets (updateAll [asset_id a] m m (saveIsOffline (asset_id a) False v)))
    \<or> (\<exists>(a::AssetEntity) m. assets (snd (handleAssetRefresh e j v)) = assets (updateAll [asset_id a] m m v))
    \<or> (\<exists>n. assets (snd (handleAssetRefresh e j v)) = assets v @ [n])"
    (is "?A \<or> ?B \<or> ?C \<or> ?D \<or> ?E")
  using har_assets_cases[of e j v]
proof (elim disjE exE conjE)
  assume ?A then show ?thesis by (rule disjI1)
next
  fix a :: AssetEntity assume "stat e (normalize e (file_assetPath j)) = None"
  with st show ?thesis by simp
next
  fix a :: AssetEntity and m :: timestamp assume "assets (snd (handleAssetRefresh e j v)) = assets (saveIsOffline (asset_id a) False v)"
  then have ?B by (rule exI[of _ a])
  then show ?thesis by (intro disjI2 disjI1)
next
  fix a :: AssetEntity and m :: timestamp assume "assets (snd (handleAssetRefresh e j v)) =
           assets (updateAll [asset_id a] m m (saveIsOffline (asset_id a) False v))"
  then have ?C by blast
  then show ?thesis by (intro disjI2 disjI1)
next
  fix a :: AssetEntity and m :: timestamp assume "assets (snd (handleAssetRefresh e j v)) = assets (updateAll [asset_id a] m m v)"
  then have ?D by blast
  then show ?thesis by (intro disjI2 disjI1)
next
  fix n assume "assets (snd (handleAssetRefresh e j v)) = assets v @ [n]"
  then have ?E by (rule exI[of _ n])
  then show ?thesis by (intro disjI2)
qed

lemma har_online_mono:
  assumes st: "stat e (normalize e (file_assetPath j)) \<noteq> None"
    and q: "q \<in> set (getOnlineAssetPaths v l)"
  shows "q \<in> set (getOnlineAssetPaths (snd (handleAssetRefresh e j v)) l)"
proof -
  let ?v' = "snd (handleAssetRefresh e j v)"
  from har_shapes_stat[OF st, of v] show ?thesis
  proof (elim disjE exE)
    assume eq: "assets ?v' = assets v"
    show ?thesis unfolding online_cong[OF eq] by (rule q)
  next
    fix a :: AssetEntity assume eq: "assets ?v' = assets (saveIsOffline (asset_id a) False v)"
    show ?thesis unfolding online_cong[OF eq] by (rule online_saveOnline_mono[OF q])
  next
    fix a :: AssetEntity and m :: timestamp
    assume eq: "assets ?v' = assets (updateAll [asset_id a] m m (saveIsOffline (asset_id a) False v))"
    show ?thesis unfolding online_cong[OF eq] online_updateAll by (rule online_saveOnline_mono[OF q])
  next
    fix a :: AssetEntity and m :: timestamp
    assume eq: "assets ?v' = assets (updateAll [asset_id a] m m v)"
    show ?thesis unfolding online_cong[OF eq] online_updateAll by (rule q)
  next
    fix n assume "assets ?v' = assets v @ [n]"
    with q show ?thesis by (rule online_append)
  qed
qed

lemma har_shapes_ids:
  "map asset_id (assets (snd (handleAssetRefresh e j v))) = map asset_id (assets v)
   \<or> map asset_id (assets (snd (handleAssetRefresh e j v))) =
       map asset_id (assets v) @ [generateId e (assets v)]"
  by (simp add: handleAssetRefresh_def importOrRefresh_def Let_def createAsset_def queueJob_def
        decideImport_def ids_saveIsOffline ids_updateAll split: option.split bool.split)

lemma har_distinct:
  assumes d: "distinct (map asset_id (assets v))"
    and f: "generateId e (assets v) \<notin> set (map asset_id (assets v))"
  shows "distinct (map asset_id (assets (snd (handleAssetRefresh e j v))))"
  using har_shapes_ids[of e j v] d f by (elim disjE) simp_all

lemma offline_frame:
  "libraries (snd (handleOfflineAsset j v)) = libraries v \<and>
   users (snd (handleOfflineAsset j v)) = users v \<and>
   map asset_id (assets (snd (handleOfflineAsset j v))) = map asset_id (assets v)"
  by (simp add: handleOfflineAsset_def ids_saveIsOffline saveIsOffline_def split: option.split)

lemma offline_online_other:
  assumes d: "distinct (map asset_id (assets v))"
    and q: "q \<in> set (getOnlineAssetPaths v l)"
    and ne: "offline_assetPath j \<noteq> q"
  shows "q \<in> set (getOnlineAssetPaths (snd (handleOfflineAsset j v)) l)"
proof (cases "getByLibraryIdAndOriginalPath v (offline_id j) (offline_assetPath j)")
  case None
  then show ?thesis using q by (simp add: handleOfflineAsset_def)
next
  case (Some a)
  from Some have m: "a \<in> set (assets v)" by (rule getBy_mem)
  from Some have "originalPath a = offline_assetPath j" using getBy_props by blast
  with ne have "originalPath a \<noteq> q \<or> asset_libraryId a \<noteq> l" by simp
  from saveOffline_other[OF d m q this] show ?thesis using Some by (simp add: handleOfflineAsset_def)
qed

text \<open>A per-path job that the checks let through, on a file that stat reads and whose
  type is supported, in a library that is not soft-deleted, leaves an online asset at its path.\<close>

lemma har_online_after:
  assumes pc: "passesPathCheck e j v"
    and st: "stat e (normalize e (file_assetPath j)) \<noteq> None"
    and ty: "classifyAssetType e (normalize e (file_assetPath j)) \<noteq> None"
    and ld: "libraryDeletedAt (libraryGet v (file_id j) True) = None"
  shows "normalize e (file_assetPath j) \<in> set (getOnlineAssetPaths (snd (handleAssetRefresh e j v)) (file_id j))"
proof -
  let ?p = "normalize e (file_assetPath j)"
  let ?v' = "snd (handleAssetRefresh e j v)"
  from st obtain m where m: "stat e ?p = Some m" by auto
  from ty obtain t where t: "classifyAssetType e ?p = Some t" by auto
  from pc obtain root where
    r1: "userExternalPath (userRepository_get v (file_ownerId j)) = Some root" and
    r2: "regExpMatch e (CHR ''^'' # normalize e root) (normalize e ?p) = Some True"
    by (rule passesPathCheckE)
  show ?thesis
  proof (cases "getByLibraryIdAndOriginalPath v (file_id j) ?p")
    case None
    have "\<exists>n. assets ?v' = assets v @ [n] \<and> asset_libraryId n = file_id j \<and> originalPath n = ?p \<and> \<not> isOffline n"
      by (simp add: handleAssetRefresh_def importOrRefresh_def Let_def r1 r2 m t None ld
            decideImport_def createAsset_def queueJob_def)
    then obtain n where n: "assets ?v' = assets v @ [n]" "asset_libraryId n = file_id j"
      "originalPath n = ?p" "\<not> isOffline n" by blast
    from n(1) have "n \<in> set (assets ?v')" by simp
    with n(2-4) show ?thesis unfolding online_iff by blast
  next
    case (Some a)
    show ?thesis
    proof (cases "isOffline a")
      case True
      have "assets ?v' = assets (updateAll [asset_id a] m m (saveIsOffline (asset_id a) False v))"
        by (simp add: handleAssetRefresh_def importOrRefresh_def Let_def r1 r2 m t Some True
            decideImport_def queueJob_def)
      then have eq: "getOnlineAssetPaths ?v' (file_id j) =
          getOnlineAssetPaths (saveIsOffline (asset_id a) False v) (file_id j)"
        by (simp add: online_cong[of ?v'] online_updateAll)
      show ?thesis unfolding eq by (rule online_after_saveOnline[OF Some])
    next
      case False
      from Some False have "?p \<in> set (getOnlineAssetPaths v (file_id j))" by (rule online_of_getBy)
      then show ?thesis by (rule har_online_mono[OF st])
    qed
  qed
qed

lemma find_distinct_key:
  "distinct (map f xs) \<Longrightarrow> find (\<lambda>x. f x = k \<and> Q x) xs = Some y \<Longrightarrow>
   find (\<lambda>x. f x = k) xs = Some y"
proof (induction xs)
  case Nil
  then show ?case by simp
next
  case (Cons x xs)
  show ?case
  proof (cases "f x = k")
    case True
    show ?thesis
    proof (cases "Q x")
      case q: True
      with True Cons.prems(2) show ?thesis by simp
    next
      case False
      with Cons.prems(2) have "find (\<lambda>x. f x = k \<and> Q x) xs = Some y" by simp
      then have "y \<in> set xs" and "f y = k" by (auto simp: find_Some_iff)
      then have "k \<in> f ` set xs" by blast
      with True Cons.prems(1) show ?thesis by simp
    qed
  next
    case False
    with Cons show ?thesis by simp
  qed
qed

lemma libraryGet_withDeleted:
  assumes "distinct (map lib_id (libraries w))" and "libraryGet w i False = Some lib"
  shows "libraryGet w i True = Some lib"
  using find_distinct_key[of lib_id "libraries w" i "\<lambda>l. deletedAt l = None" lib] assms
  by (simp add: libraryGet_def)

lemma libraryGet_live:
  "libraryGet w i False = Some lib \<Longrightarrow> deletedAt lib = None \<and> lib_id lib = i"
  by (auto simp: libraryGet_def find_Some_iff)

lemma libraryGet_updateRefreshedAt:
  "libraryGet (updateRefreshedAt i t w) k b =
     map_option (\<lambda>l. if lib_id l = i then l\<lparr>refreshedAt := Some t\<rparr> else l) (libraryGet w k b)"
  by (simp add: libraryGet_def updateRefreshedAt_def find_map_same)

lemma runJob_off:
  assumes d: "distinct (map asset_id (assets v))"
  shows "libraries (runJob e (LIBRARY_MARK_ASSET_OFFLINE oj) v) = libraries v"
    and "users (runJob e (LIBRARY_MARK_ASSET_OFFLINE oj) v) = users v"
    and "distinct (map asset_id (assets (runJob e (LIBRARY_MARK_ASSET_OFFLINE oj) v)))"
    and "p \<in> set (getOnlineAssetPaths v i) \<Longrightarrow> offline_assetPath oj \<noteq> p \<Longrightarrow>
            p \<in> set (getOnlineAssetPaths (runJob e (LIBRARY_MARK_ASSET_OFFLINE oj) v) i)"
proof -
  have r: "runJob e (LIBRARY_MARK_ASSET_OFFLINE oj) v = snd (handleOfflineAsset oj v)" by simp
  note fr = offline_frame[of oj v]
  show "libraries (runJob e (LIBRARY_MARK_ASSET_OFFLINE oj) v) = libraries v"
    unfolding r using fr by (rule conjunct1)
  show "users (runJob e (LIBRARY_MARK_ASSET_OFFLINE oj) v) = users v"
    unfolding r using fr by blast
  have "map asset_id (assets (snd (handleOfflineAsset oj v))) = map asset_id (assets v)"
    using fr by blast
  then show "distinct (map asset_id (assets (runJob e (LIBRARY_MARK_ASSET_OFFLINE oj) v)))"
    unfolding r using d by simp
  show "p \<in> set (getOnlineAssetPaths (runJob e (LIBRARY_MARK_ASSET_OFFLINE oj) v) i)"
    if "p \<in> set (getOnlineAssetPaths v i)" "offline_assetPath oj \<noteq> p"
    unfolding r using d that by (rule offline_online_other)
qed

lemma runJob_scan:
  fixes e i p owner
  defines "fj \<equiv> \<lparr>file_id = i, file_assetPath = normalize e p, file_ownerId = owner, file_force = False\<rparr>"
  assumes F: "generateId e (assets v) \<notin> set (map asset_id (assets v))"
    and d: "distinct (map asset_id (assets v))"
    and ld: "libraryDeletedAt (libraryGet v i True) = None"
    and ue: "userExternalPath (userRepository_get v owner) = Some root"
    and np: "normalize e p = p"
    and rx: "regExpMatch e (CHR ''^'' # normalize e root) p = Some True"
    and st: "stat e p \<noteq> None" and ty: "classifyAssetType e p \<noteq> None"
  shows "libraries (runJob e (LIBRARY_SCAN_ASSET fj) v) = libraries v"
    and "users (runJob e (LIBRARY_SCAN_ASSET fj) v) = users v"
    and "distinct (map asset_id (assets (runJob e (LIBRARY_SCAN_ASSET fj) v)))"
    and "\<And>p'. p' \<in> set (getOnlineAssetPaths v i) \<Longrightarrow>
            p' \<in> set (getOnlineAssetPaths (runJob e (LIBRARY_SCAN_ASSET fj) v) i)"
    and "p \<in> set (getOnlineAssetPaths (runJob e (LIBRARY_SCAN_ASSET fj) v) i)"
proof -
  have r: "runJob e (LIBRARY_SCAN_ASSET fj) v = snd (handleAssetRefresh e fj v)" by simp
  have sel: "file_id fj = i" "file_assetPath fj = normalize e p" "file_ownerId fj = owner"
    by (simp_all add: fj_def)
  have pc: "passesPathCheck e fj v"
    unfolding passesPathCheck_def sel by (simp add: ue np rx)
  have st': "stat e (normalize e (file_assetPath fj)) \<noteq> None" unfolding sel using st by (simp add: np)
  have ty': "classifyAssetType e (normalize e (file_assetPath fj)) \<noteq> None"
    unfolding sel using ty by (simp add: np)
  have ld': "libraryDeletedAt (libraryGet v (file_id fj) True) = None" unfolding sel by (rule ld)
  note fr = har_frame[of e fj v]
  show "libraries (runJob e (LIBRARY_SCAN_ASSET fj) v) = libraries v"
    unfolding r using fr by (rule conjunct1)
  show "users (runJob e (LIBRARY_SCAN_ASSET fj) v) = users v"
    unfolding r using fr by (rule conjunct2)
  show "distinct (map asset_id (assets (runJob e (LIBRARY_SCAN_ASSET fj) v)))"
    unfolding r by (rule har_distinct[OF d F])
  show "p' \<in> set (getOnlineAssetPaths (runJob e (LIBRARY_SCAN_ASSET fj) v) i)"
    if "p' \<in> set (getOnlineAssetPaths v i)" for p'
    unfolding r by (rule har_online_mono[OF st' that])
  have "normalize e (file_assetPath fj) \<in> set (getOnlineAssetPaths (snd (handleAssetRefresh e fj v)) (file_id fj))"
    by (rule har_online_after[OF pc st' ty' ld'])
  then show "p \<in> set (getOnlineAssetPaths (runJob e (LIBRARY_SCAN_ASSET fj) v) i)"
    unfolding r sel np .
qed

lemma fold_runJob:
  fixes e :: env and i owner :: ident and C :: "string list"
  assumes F: "\<And>as. generateId e as \<notin> set (map asset_id as)"
    and Cok: "\<And>p. p \<in> set C \<Longrightarrow> normalize e p = p \<and>
                 regExpMatch e (CHR ''^'' # normalize e root) p = Some True \<and>
                 stat e p \<noteq> None \<and> classifyAssetType e p \<noteq> None"
    and js: "\<And>j. j \<in> set js \<Longrightarrow>
            (\<exists>q. q \<notin> set C \<and>
                 j = LIBRARY_MARK_ASSET_OFFLINE \<lparr>offline_id = i, offline_assetPath = q\<rparr>) \<or>
            (\<exists>p\<in>set C. j = LIBRARY_SCAN_ASSET
                 \<lparr>file_id = i, file_assetPath = normalize e p, file_ownerId = owner, file_force = False\<rparr>)"
    and d: "distinct (map asset_id (assets v))"
    and ld: "libraryDeletedAt (libraryGet v i True) = None"
    and ue: "userExternalPath (userRepository_get v owner) = Some root"
  shows "libraries (fold (runJob e) js v) = libraries v \<and>
         users (fold (runJob e) js v) = users v \<and>
         distinct (map asset_id (assets (fold (runJob e) js v))) \<and>
         (\<forall>p\<in>set C. p \<in> set (getOnlineAssetPaths v i) \<or>
              LIBRARY_SCAN_ASSET \<lparr>file_id = i, file_assetPath = normalize e p,
                 file_ownerId = owner, file_force = False\<rparr> \<in> set js \<longrightarrow>
            p \<in> set (getOnlineAssetPaths (fold (runJob e) js v) i))"
  using js d ld ue
proof (induction js arbitrary: v)
  case Nil
  then show ?case by simp
next
  case (Cons j js)
  let ?scanJ = "\<lambda>p. LIBRARY_SCAN_ASSET \<lparr>file_id = i, file_assetPath = normalize e p,
                 file_ownerId = owner, file_force = False\<rparr>"
  let ?v' = "runJob e j v"
  note d = Cons.prems(2) and ld = Cons.prems(3) and ue = Cons.prems(4)
  have okj: "(\<exists>q. q \<notin> set C \<and>
                 j = LIBRARY_MARK_ASSET_OFFLINE \<lparr>offline_id = i, offline_assetPath = q\<rparr>) \<or>
            (\<exists>p\<in>set C. j = ?scanJ p)"
    by (rule Cons.prems(1)) simp
  have base: "libraries ?v' = libraries v \<and> users ?v' = users v \<and>
      distinct (map asset_id (assets ?v')) \<and>
      (\<forall>p\<in>set C. p \<in> set (getOnlineAssetPaths v i) \<longrightarrow> p \<in> set (getOnlineAssetPaths ?v' i))"
    using okj
  proof (elim disjE exE bexE conjE)
    fix q assume q: "q \<notin> set C"
      and jq: "j = LIBRARY_MARK_ASSET_OFFLINE \<lparr>offline_id = i, offline_assetPath = q\<rparr>"
    let ?oj = "\<lparr>offline_id = i, offline_assetPath = q\<rparr>"
    have "p \<in> set (getOnlineAssetPaths (runJob e (LIBRARY_MARK_ASSET_OFFLINE ?oj) v) i)"
      if "p \<in> set C" "p \<in> set (getOnlineAssetPaths v i)" for p
    proof -
      from that(1) q have "offline_assetPath ?oj \<noteq> p" by auto
      with that(2) show ?thesis by (rule runJob_off(4)[OF d])
    qed
    then show ?thesis
      unfolding jq using runJob_off(1-3)[OF d, of e ?oj] by blast
  next
    fix p0 assume p0: "p0 \<in> set C" and jp: "j = ?scanJ p0"
    from Cok[OF p0] have np: "normalize e p0 = p0"
      and rx: "regExpMatch e (CHR ''^'' # normalize e root) p0 = Some True"
      and st: "stat e p0 \<noteq> None" and ty: "classifyAssetType e p0 \<noteq> None" by simp_all
    note s = runJob_scan[OF F d ld ue np rx st ty]
    show ?thesis unfolding jp using s(1) s(2) s(3) s(4) by blast
  qed
  have after: "p \<in> set (getOnlineAssetPaths ?v' i)" if "p \<in> set C" "?scanJ p = j" for p
  proof -
    from Cok[OF that(1)] have np: "normalize e p = p"
      and rx: "regExpMatch e (CHR ''^'' # normalize e root) p = Some True"
      and st: "stat e p \<noteq> None" and ty: "classifyAssetType e p \<noteq> None" by simp_all
    show ?thesis unfolding that(2)[symmetric] by (rule runJob_scan(5)[OF F d ld ue np rx st ty])
  qed
  from base have l': "libraries ?v' = libraries v" and u': "users ?v' = users v"
    and d': "distinct (map asset_id (assets ?v'))"
    and mono: "\<And>p. p \<in> set C \<Longrightarrow> p \<in> set (getOnlineAssetPaths v i) \<Longrightarrow>
                  p \<in> set (getOnlineAssetPaths ?v' i)"
    by blast+
  have ld': "libraryDeletedAt (libraryGet ?v' i True) = None"
    unfolding libraryGet_cong[OF l'] by (rule ld)
  have ue': "userExternalPath (userRepository_get ?v' owner) = Some root"
    unfolding userGet_cong[OF u'] by (rule ue)
  have js': "\<And>j. j \<in> set js \<Longrightarrow>
            (\<exists>q. q \<notin> set C \<and>
                 j = LIBRARY_MARK_ASSET_OFFLINE \<lparr>offline_id = i, offline_assetPath = q\<rparr>) \<or>
            (\<exists>p\<in>set C. j = ?scanJ p)"
    by (rule Cons.prems(1)) simp
  note IH = Cons.IH[OF js' d' ld' ue']
  have f: "fold (runJob e) (j # js) v = fold (runJob e) js ?v'" by simp
  have fin: "p \<in> set (getOnlineAssetPaths (fold (runJob e) js ?v') i)"
    if pC: "p \<in> set C"
      and h: "p \<in> set (getOnlineAssetPaths v i) \<or> ?scanJ p \<in> set (j # js)" for p
  proof -
    from h have "p \<in> set (getOnlineAssetPaths ?v' i) \<or> ?scanJ p \<in> set js"
    proof (elim disjE)
      assume "p \<in> set (getOnlineAssetPaths v i)"
      then show ?thesis using mono[OF pC] by blast
    next
      assume "?scanJ p \<in> set (j # js)"
      then have "?scanJ p = j \<or> ?scanJ p \<in> set js" by (simp only: set_ConsD list.set insert_iff)
      then show ?thesis using after[OF pC] by blast
    qed
    with IH pC show ?thesis by blast
  qed
  show ?case unfolding f using IH l' u' fin by (simp only:) blast
qed

lemma no_scan_jobs_in_marks:
  "filter isScanAssetJob (map (\<lambda>a. LIBRARY_MARK_ASSET_OFFLINE (f a)) xs) = []"
  by (induction xs) simp_all

lemma libraryGet_queue_update:
  "libraryGet (w\<lparr>queue := q\<rparr>) i b = libraryGet w i b"
  by (simp add: libraryGet_def)

lemma rescan_no_jobs:
  fixes e :: env and sjob :: ILibraryRefreshJob and w :: world
  defines "w1 \<equiv> snd (handleQueueAssetRefresh e sjob w)"
  assumes flags: "\<not> refreshModifiedFiles sjob" "\<not> refreshAllFiles sjob"
    and N: "\<And>x. normalize e (normalize e x) = normalize e x"
    and F: "\<And>as. generateId e as \<notin> set (map asset_id as)"
    and da: "distinct (map asset_id (assets w))"
    and dl: "distinct (map lib_id (libraries w))"
    and S: "\<And>lib c. libraryGet w (refresh_id sjob) False = Some lib \<Longrightarrow>
              c \<in> set (crawl e (importPaths lib) (exclusionPatterns lib)) \<Longrightarrow>
              stat e (normalize e c) \<noteq> None \<and> classifyAssetType e (normalize e c) \<noteq> None"
    and js: "set js = set (emitted w w1)"
  shows "filter isScanAssetJob
           (emitted (fold (runJob e) js w1)
              (snd (handleQueueAssetRefresh e sjob (fold (runJob e) js w1)))) = []"
proof (cases "scanGuardsPass e sjob w")
  case False
  then have w1: "w1 = w" unfolding w1_def by (rule scan_fail)
  with js have "js = []" by (simp add: emitted_def)
  then have "fold (runJob e) js w1 = w" using w1 by simp
  moreover have "snd (handleQueueAssetRefresh e sjob w) = w" using False by (rule scan_fail)
  ultimately show ?thesis by (simp add: emitted_def)
next
  case True
  let ?i = "refresh_id sjob"
  from True obtain lib root C where lg: "libraryGet w ?i False = Some lib"
    and lt: "lib_type lib = EXTERNAL"
    and ue: "userExternalPath (userRepository_get w (lib_ownerId lib)) = Some root"
    and fw: "filterWithinExternalPath e (normalize e root)
           (map (normalize e) (crawl e (importPaths lib) (exclusionPatterns lib))) = Inr C"
    by (rule scanGuardsPassE)
  let ?owner = "lib_ownerId lib"
  let ?scanJ = "\<lambda>p. LIBRARY_SCAN_ASSET \<lparr>file_id = ?i, file_assetPath = normalize e p,
                 file_ownerId = ?owner, file_force = False\<rparr>"
  let ?markJ = "\<lambda>a. LIBRARY_MARK_ASSET_OFFLINE \<lparr>offline_id = ?i, offline_assetPath = originalPath a\<rparr>"
  let ?O = "map ?markJ (filter (\<lambda>asset. originalPath asset \<notin> set C) (getByLibraryId w ?i))"
  let ?S = "map ?scanJ (filter (\<lambda>assetPath. assetPath \<notin> set (getOnlineAssetPaths w ?i)) C)"
  let ?upd = "\<lambda>l. if lib_id l = ?i then l\<lparr>refreshedAt := Some (now e)\<rparr> else l"
  have w1: "w1 = updateRefreshedAt ?i (now e) (queueAll ?S (queueAll ?O w))"
    unfolding w1_def scan_pass[OF lg lt ue fw flags(2) flags(1)] by simp
  have em: "emitted w w1 = ?O @ ?S"
    unfolding w1 by (simp add: emitted_def queueAll_eq)
  have a1: "assets w1 = assets w" and u1: "users w1 = users w"
    unfolding w1 by (simp_all add: queueAll_eq)
  have C: "C = filter (\<lambda>x. regExpMatch e (CHR ''^'' # normalize e root) x = Some True)
                 (map (normalize e) (crawl e (importPaths lib) (exclusionPatterns lib)))"
    using fw by (rule filterWithin_Inr)
  have Cok: "normalize e p = p \<and> regExpMatch e (CHR ''^'' # normalize e root) p = Some True \<and>
             stat e p \<noteq> None \<and> classifyAssetType e p \<noteq> None" if "p \<in> set C" for p
  proof -
    from that obtain c where c: "c \<in> set (crawl e (importPaths lib) (exclusionPatterns lib))"
      and p: "p = normalize e c" and m: "regExpMatch e (CHR ''^'' # normalize e root) p = Some True"
      unfolding C by auto
    from S[OF lg c] N[of c] m show ?thesis unfolding p by simp
  qed
  have okjs: "(\<exists>q. q \<notin> set C \<and>
                 j = LIBRARY_MARK_ASSET_OFFLINE \<lparr>offline_id = ?i, offline_assetPath = q\<rparr>) \<or>
            (\<exists>p\<in>set C. j = ?scanJ p)" if "j \<in> set js" for j
  proof -
    from that js em have "j \<in> set ?O \<or> j \<in> set ?S" by simp
    then show ?thesis
    proof
      assume "j \<in> set ?O"
      then obtain a :: AssetEntity where "originalPath a \<notin> set C" "j = ?markJ a" by auto
      then show ?thesis by blast
    next
      assume "j \<in> set ?S"
      then obtain p where "p \<in> set C" "j = ?scanJ p" by auto
      then show ?thesis by blast
    qed
  qed
  have d1: "distinct (map asset_id (assets w1))" unfolding a1 by (rule da)
  have lgT: "libraryGet w ?i True = Some lib" using dl lg by (rule libraryGet_withDeleted)
  from lg have live: "deletedAt lib = None" and lid: "lib_id lib = ?i"
    using libraryGet_live by blast+
  have lg1: "libraryGet w1 ?i b = map_option ?upd (libraryGet w ?i b)" for b
    unfolding w1 by (simp add: libraryGet_updateRefreshedAt queueAll_eq libraryGet_queue_update)
  have ld1: "libraryDeletedAt (libraryGet w1 ?i True) = None"
    unfolding lg1 lgT using live by (simp add: libraryDeletedAt_def)
  have ue1: "userExternalPath (userRepository_get w1 ?owner) = Some root"
    unfolding userGet_cong[OF u1] by (rule ue)
  let ?w2 = "fold (runJob e) js w1"
  from fold_runJob[of e C root js ?i ?owner w1, OF F Cok okjs d1 ld1 ue1]
  have l2: "libraries ?w2 = libraries w1" and u2: "users ?w2 = users w1"
    and on2: "\<And>p. p \<in> set C \<Longrightarrow> p \<in> set (getOnlineAssetPaths w1 ?i) \<or> ?scanJ p \<in> set js \<Longrightarrow>
                p \<in> set (getOnlineAssetPaths ?w2 ?i)"
    by blast+
  have allOn: "p \<in> set (getOnlineAssetPaths ?w2 ?i)" if pC: "p \<in> set C" for p
  proof (cases "p \<in> set (getOnlineAssetPaths w ?i)")
    case True
    then have "p \<in> set (getOnlineAssetPaths w1 ?i)" unfolding online_cong[OF a1] .
    then show ?thesis using on2[OF pC] by blast
  next
    case False
    with pC have "?scanJ p \<in> set ?S" by simp
    then have "?scanJ p \<in> set js" unfolding js em by simp
    then show ?thesis using on2[OF pC] by blast
  qed
  let ?lib2 = "?upd lib"
  have lg2: "libraryGet ?w2 ?i False = Some ?lib2"
    unfolding libraryGet_cong[OF l2] lg1 lg by simp
  have lt2: "lib_type ?lib2 = EXTERNAL" using lt by simp
  have ow2: "lib_ownerId ?lib2 = ?owner" by simp
  have ue2: "userExternalPath (userRepository_get ?w2 (lib_ownerId ?lib2)) = Some root"
    unfolding ow2 userGet_cong[OF u2] by (rule ue1)
  have fw2: "filterWithinExternalPath e (normalize e root)
           (map (normalize e) (crawl e (importPaths ?lib2) (exclusionPatterns ?lib2))) = Inr C"
    using fw by simp
  let ?O2 = "map ?markJ (filter (\<lambda>asset. originalPath asset \<notin> set C) (getByLibraryId ?w2 ?i))"
  have none: "filter (\<lambda>assetPath. assetPath \<notin> set (getOnlineAssetPaths ?w2 ?i)) C = []"
    using allOn by (simp add: filter_empty_conv)
  have "snd (handleQueueAssetRefresh e sjob ?w2) =
      updateRefreshedAt ?i (now e) (queueAll [] (queueAll ?O2 ?w2))"
    unfolding scan_pass[OF lg2 lt2 ue2 fw2 flags(2) flags(1)] none by simp
  then have "emitted ?w2 (snd (handleQueueAssetRefresh e sjob ?w2)) = ?O2"
    by (simp add: emitted_def queueAll_eq)
  then show ?thesis by (simp only: no_scan_jobs_in_marks)
qed

lemma fold_max_ge:
  fixes n :: nat
  shows "n \<le> fold max xs n" and "x \<in> set xs \<Longrightarrow> x \<le> fold max xs n"
proof -
  have "n \<le> fold max xs n \<and> (\<forall>x\<in>set xs. x \<le> fold max xs n)"
  proof (induction xs arbitrary: n)
    case Nil
    then show ?case by simp
  next
    case (Cons y ys)
    from Cons.IH[of "max y n"] show ?case by auto
  qed
  then show "n \<le> fold max xs n" and "x \<in> set xs \<Longrightarrow> x \<le> fold max xs n" by blast+
qed

lemma longerId_fresh: "longerId as \<notin> set (map asset_id as)"
proof
  assume "longerId as \<in> set (map asset_id as)"
  then obtain a where a: "a \<in> set as" and eq: "longerId as = asset_id a" by auto
  from a have "length (asset_id a) \<in> set (map (\<lambda>a. length (asset_id a)) as)" by simp
  then have "length (asset_id a) \<le> fold max (map (\<lambda>a. length (asset_id a)) as) 0"
    by (rule fold_max_ge(2))
  moreover have "length (longerId as) = Suc (fold max (map (\<lambda>a. length (asset_id a)) as) 0)"
    by (simp add: longerId_def)
  ultimately show False using eq by simp
qed

lemma noop_unchanged:
  assumes g: "getByLibraryIdAndOriginalPath w (file_id fjob) (normalize e (file_assetPath fjob)) = Some a"
    and on: "\<not> isOffline a"
    and st: "stat e (normalize e (file_assetPath fjob)) = Some (fileModifiedAt a)"
    and nf: "\<not> file_force fjob"
  shows "snd (handleAssetRefresh e fjob w) = w"
    and "passesPathCheck e fjob w \<Longrightarrow> fst (handleAssetRefresh e fjob w) = Inr True"
proof -
  show "snd (handleAssetRefresh e fjob w) = w"
    using g on st nf
    by (simp add: handleAssetRefresh_def Let_def decideImport_def decideRefresh_def
          split: option.split bool.split)
  assume "passesPathCheck e fjob w"
  then obtain root where
    r1: "userExternalPath (userRepository_get w (file_ownerId fjob)) = Some root" and
    r2: "regExpMatch e (CHR ''^'' # normalize e root) (normalize e (normalize e (file_assetPath fjob))) = Some True"
    by (rule passesPathCheckE)
  show "fst (handleAssetRefresh e fjob w) = Inr True"
    by (simp add: handleAssetRefresh_def Let_def decideImport_def decideRefresh_def r1 r2 g on st nf)
qed

lemmas scan_eval_defs = handleQueueAssetRefresh_def libraryGet_def userExternalPath_def
  userRepository_get_def getByLibraryId_def getOnlineAssetPaths_def updateRefreshedAt_def
  queueJob_def emitted_def Let_def

text \<open>
  Claim C2, as stated: running a scan with refreshModifiedFiles = false and
  refreshAllFiles = false a second time, with no file system change between the runs,
  queues no import/refresh job. It fails when the first run could not import a crawled
  file. First example: stat fails on the crawled file; the per-path job of the first scan
  is delivered, the handler throws "Can't access file" and creates nothing, and the second
  scan queues the same per-path job again. Second example: the crawled file has an
  unsupported type; the handler throws, and the second scan queues its job again.
\<close>

theorem C2_rescan_requeues_counterexample:
  "emitted (exampleWorld ''/data/photos'' [exampleLibrary ''L1'' EXTERNAL [''/data/photos''] None] [])
     (snd (handleQueueAssetRefresh (exampleEnv (\<lambda>p. None) [''/data/photos/a.jpg''])
        \<lparr>refresh_id = ''L1'', refreshModifiedFiles = False, refreshAllFiles = False\<rparr>
        (exampleWorld ''/data/photos'' [exampleLibrary ''L1'' EXTERNAL [''/data/photos''] None] [])))
   = [LIBRARY_SCAN_ASSET (exampleFileJob ''/data/photos/a.jpg'' False)] \<and>
   filter isScanAssetJob
     (emitted
        (fold (runJob (exampleEnv (\<lambda>p. None) [''/data/photos/a.jpg'']))
           [LIBRARY_SCAN_ASSET (exampleFileJob ''/data/photos/a.jpg'' False)]
           (snd (handleQueueAssetRefresh (exampleEnv (\<lambda>p. None) [''/data/photos/a.jpg''])
              \<lparr>refresh_id = ''L1'', refreshModifiedFiles = False, refreshAllFiles = False\<rparr>
              (exampleWorld ''/data/photos'' [exampleLibrary ''L1'' EXTERNAL [''/data/photos''] None] []))))
        (snd (handleQueueAssetRefresh (exampleEnv (\<lambda>p. None) [''/data/photos/a.jpg''])
           \<lparr>refresh_id = ''L1'', refreshModifiedFiles = False, refreshAllFiles = False\<rparr>
           (fold (runJob (exampleEnv (\<lambda>p. None) [''/data/photos/a.jpg'']))
              [LIBRARY_SCAN_ASSET (exampleFileJob ''/data/photos/a.jpg'' False)]
              (snd (handleQueueAssetRefresh (exampleEnv (\<lambda>p. None) [''/data/photos/a.jpg''])
                 \<lparr>refresh_id = ''L1'', refreshModifiedFiles = False, refreshAllFiles = False\<rparr>
                 (exampleWorld ''/data/photos'' [exampleLibrary ''L1'' EXTERNAL [''/data/photos''] None] [])))))))
   = [LIBRARY_SCAN_ASSET (exampleFileJob ''/data/photos/a.jpg'' False)] \<and>
   filter isScanAssetJob
     (emitted
        (fold (runJob (exampleEnv (\<lambda>p. Some 1000) [''/data/photos/notes.txt'']))
           [LIBRARY_SCAN_ASSET (exampleFileJob ''/data/photos/notes.txt'' False)]
           (snd (handleQueueAssetRefresh (exampleEnv (\<lambda>p. Some 1000) [''/data/photos/notes.txt''])
              \<lparr>refresh_id = ''L1'', refreshModifiedFiles = False, refreshAllFiles = False\<rparr>
              (exampleWorld ''/data/photos'' [exampleLibrary ''L1'' EXTERNAL [''/data/photos''] None] []))))
        (snd (handleQueueAssetRefresh (exampleEnv (\<lambda>p. Some 1000) [''/data/photos/notes.txt''])
           \<lparr>refresh_id = ''L1'', refreshModifiedFiles = False, refreshAllFiles = False\<rparr>
           (fold (runJob (exampleEnv (\<lambda>p. Some 1000) [''/data/photos/notes.txt'']))
              [LIBRARY_SCAN_ASSET (exampleFileJob ''/data/photos/notes.txt'' False)]
              (snd (handleQueueAssetRefresh (exampleEnv (\<lambda>p. Some 1000) [''/data/photos/notes.txt''])
                 \<lparr>refresh_id = ''L1'', refreshModifiedFiles = False, refreshAllFiles = False\<rparr>
                 (exampleWorld ''/data/photos'' [exampleLibrary ''L1'' EXTERNAL [''/data/photos''] None] [])))))))
   = [LIBRARY_SCAN_ASSET (exampleFileJob ''/data/photos/notes.txt'' False)]"
  by (simp add: ex_defs scan_eval_defs refresh_defs)

text \<open>
  Claim C2, amended.

  First part, as in the claim: on an existing asset that is not offline, with the stat
  mtime equal to the stored fileModifiedAt and force = false, the per-path handler returns
  the state it was given (no catalog write, no job), and returns true when the path check
  lets the job through; delivering the job again therefore changes nothing either.

  Second part: take a scan with refreshModifiedFiles = false and refreshAllFiles = false,
  let every job it queued be delivered at least once, in any order (\<open>js\<close> lists the
  deliveries), and run the same scan again in the same environment. Provided every file the
  crawl returns can be read by stat and has a supported image or video type, the second
  scan queues no per-path job. The rest of the environment is as the collaborators provide
  it: path.normalize is idempotent, the database gives a new row an unused id, and asset
  ids and library ids are keys.
\<close>

theorem C2_idempotent_rerun:
  "(getByLibraryIdAndOriginalPath w (file_id fjob) (normalize e (file_assetPath fjob)) = Some a \<and>
    \<not> isOffline a \<and>
    stat e (normalize e (file_assetPath fjob)) = Some (fileModifiedAt a) \<and>
    \<not> file_force fjob \<longrightarrow>
      snd (handleAssetRefresh e fjob w) = w \<and>
      (passesPathCheck e fjob w \<longrightarrow> fst (handleAssetRefresh e fjob w) = Inr True)) \<and>
   (\<not> refreshModifiedFiles sjob \<and> \<not> refreshAllFiles sjob \<and>
    (\<forall>x. normalize e (normalize e x) = normalize e x) \<and>
    (\<forall>as. generateId e as \<notin> set (map asset_id as)) \<and>
    distinct (map asset_id (assets v)) \<and>
    distinct (map lib_id (libraries v)) \<and>
    (\<forall>lib. libraryGet v (refresh_id sjob) False = Some lib \<longrightarrow>
       (\<forall>c \<in> set (crawl e (importPaths lib) (exclusionPatterns lib)).
          stat e (normalize e c) \<noteq> None \<and> classifyAssetType e (normalize e c) \<noteq> None)) \<and>
    set js = set (emitted v (snd (handleQueueAssetRefresh e sjob v))) \<longrightarrow>
      filter isScanAssetJob
        (emitted (fold (runJob e) js (snd (handleQueueAssetRefresh e sjob v)))
           (snd (handleQueueAssetRefresh e sjob
              (fold (runJob e) js (snd (handleQueueAssetRefresh e sjob v)))))) = [])"
proof (intro conjI impI)
  assume h: "getByLibraryIdAndOriginalPath w (file_id fjob) (normalize e (file_assetPath fjob)) = Some a \<and>
    \<not> isOffline a \<and>
    stat e (normalize e (file_assetPath fjob)) = Some (fileModifiedAt a) \<and>
    \<not> file_force fjob"
  then show "snd (handleAssetRefresh e fjob w) = w" by (intro noop_unchanged(1)[of w fjob e a]) simp_all
  assume "passesPathCheck e fjob w"
  with h show "fst (handleAssetRefresh e fjob w) = Inr True"
    by (intro noop_unchanged(2)[of w fjob e a]) simp_all
next
  assume h: "\<not> refreshModifiedFiles sjob \<and> \<not> refreshAllFiles sjob \<and>
    (\<forall>x. normalize e (normalize e x) = normalize e x) \<and>
    (\<forall>as. generateId e as \<notin> set (map asset_id as)) \<and>
    distinct (map asset_id (assets v)) \<and>
    distinct (map lib_id (libraries v)) \<and>
    (\<forall>lib. libraryGet v (refresh_id sjob) False = Some lib \<longrightarrow>
       (\<forall>c \<in> set (crawl e (importPaths lib) (exclusionPatterns lib)).
          stat e (normalize e c) \<noteq> None \<and> classifyAssetType e (normalize e c) \<noteq> None)) \<and>
    set js = set (emitted v (snd (handleQueueAssetRefresh e sjob v)))"
  show "filter isScanAssetJob
        (emitted (fold (runJob e) js (snd (handleQueueAssetRefresh e sjob v)))
           (snd (handleQueueAssetRefresh e sjob
              (fold (runJob e) js (snd (handleQueueAssetRefresh e sjob v)))))) = []"
  proof (rule rescan_no_jobs)
    show "\<not> refreshModifiedFiles sjob" "\<not> refreshAllFiles sjob" using h by simp_all
    show "normalize e (normalize e x) = normalize e x" for x using h by simp
    show "generateId e as \<notin> set (map asset_id as)" for as using h by blast
    show "distinct (map asset_id (assets v))" "distinct (map lib_id (libraries v))" using h by simp_all
    show "stat e (normalize e c) \<noteq> None \<and> classifyAssetType e (normalize e c) \<noteq> None"
      if "libraryGet v (refresh_id sjob) False = Some lib"
        "c \<in> set (crawl e (importPaths lib) (exclusionPatterns lib))" for lib c
      using h that by blast
    show "set js = set (emitted v (snd (handleQueueAssetRefresh e sjob v)))" using h by simp
  qed
qed

theorem C2_idempotent_rerun_witness:
  "snd (handleAssetRefresh
     (exampleEnv (\<lambda>p. Some 1000) [''/data/photos/a.jpg'', ''/data/photos/b.mp4''])
     (exampleFileJob ''/data/photos/a.jpg'' False)
     (exampleWorld ''/data/photos'' [exampleLibrary ''L1'' EXTERNAL [''/data/photos''] None]
        [exampleAsset ''a1'' ''L1'' ''/data/photos/a.jpg'' IMAGE 1000 False]))
   = exampleWorld ''/data/photos'' [exampleLibrary ''L1'' EXTERNAL [''/data/photos''] None]
        [exampleAsset ''a1'' ''L1'' ''/data/photos/a.jpg'' IMAGE 1000 False] \<and>
   emitted (exampleWorld ''/data/photos'' [exampleLibrary ''L1'' EXTERNAL [''/data/photos''] None] [])
     (snd (handleQueueAssetRefresh
        (exampleEnv (\<lambda>p. Some 1000) [''/data/photos/a.jpg'', ''/data/photos/b.mp4''])
        \<lparr>refresh_id = ''L1'', refreshModifiedFiles = False, refreshAllFiles = False\<rparr>
        (exampleWorld ''/data/photos'' [exampleLibrary ''L1'' EXTERNAL [''/data/photos''] None] [])))
   = [LIBRARY_SCAN_ASSET (exampleFileJob ''/data/photos/a.jpg'' False),
      LIBRARY_SCAN_ASSET (exampleFileJob ''/data/photos/b.mp4'' False)] \<and>
   filter isScanAssetJob
     (emitted
        (fold (runJob (exampleEnv (\<lambda>p. Some 1000) [''/data/photos/a.jpg'', ''/data/photos/b.mp4'']))
           [LIBRARY_SCAN_ASSET (exampleFileJob ''/data/photos/b.mp4'' False),
            LIBRARY_SCAN_ASSET (exampleFileJob ''/data/photos/a.jpg'' False),
            LIBRARY_SCAN_ASSET (exampleFileJob ''/data/photos/b.mp4'' False)]
           (snd (handleQueueAssetRefresh
              (exampleEnv (\<lambda>p. Some 1000) [''/data/photos/a.jpg'', ''/data/photos/b.mp4''])
              \<lparr>refresh_id = ''L1'', refreshModifiedFiles = False, refreshAllFiles = False\<rparr>
              (exampleWorld ''/data/photos'' [exampleLibrary ''L1'' EXTERNAL [''/data/photos''] None] []))))
        (snd (handleQueueAssetRefresh
           (exampleEnv (\<lambda>p. Some 1000) [''/data/photos/a.jpg'', ''/data/photos/b.mp4''])
           \<lparr>refresh_id = ''L1'', refreshModifiedFiles = False, refreshAllFiles = False\<rparr>
           (fold (runJob (exampleEnv (\<lambda>p. Some 1000) [''/data/photos/a.jpg'', ''/data/photos/b.mp4'']))
              [LIBRARY_SCAN_ASSET (exampleFileJob ''/data/photos/b.mp4'' False),
               LIBRARY_SCAN_ASSET (exampleFileJob ''/data/photos/a.jpg'' False),
               LIBRARY_SCAN_ASSET (exampleFileJob ''/data/photos/b.mp4'' False)]
              (snd (handleQueueAssetRefresh
                 (exampleEnv (\<lambda>p. Some 1000) [''/data/photos/a.jpg'', ''/data/photos/b.mp4''])
                 \<lparr>refresh_id = ''L1'', refreshModifiedFiles = False, refreshAllFiles = False\<rparr>
                 (exampleWorld ''/data/photos'' [exampleLibrary ''L1'' EXTERNAL [''/data/photos''] None] []))))))) = []"
proof -
  let ?E = "exampleEnv (\<lambda>p. Some 1000) [''/data/photos/a.jpg'', ''/data/photos/b.mp4'']"
  let ?J = "exampleFileJob ''/data/photos/a.jpg'' False"
  let ?A = "exampleAsset ''a1'' ''L1'' ''/data/photos/a.jpg'' IMAGE 1000 False"
  let ?L = "exampleLibrary ''L1'' EXTERNAL [''/data/photos''] None"
  let ?W = "exampleWorld ''/data/photos'' [?L] [?A]"
  let ?V = "exampleWorld ''/data/photos'' [?L] []"
  let ?S = "\<lparr>refresh_id = ''L1'', refreshModifiedFiles = False, refreshAllFiles = False\<rparr>"
  let ?ja = "LIBRARY_SCAN_ASSET (exampleFileJob ''/data/photos/a.jpg'' False)"
  let ?jb = "LIBRARY_SCAN_ASSET (exampleFileJob ''/data/photos/b.mp4'' False)"
  let ?js = "[?jb, ?ja, ?jb]"
  have noop: "getByLibraryIdAndOriginalPath ?W (file_id ?J) (normalize ?E (file_assetPath ?J)) = Some ?A \<and>
      \<not> isOffline ?A \<and>
      stat ?E (normalize ?E (file_assetPath ?J)) = Some (fileModifiedAt ?A) \<and>
      \<not> file_force ?J"
    by (simp add: ex_defs getByLibraryIdAndOriginalPath_def)
  have em: "emitted ?V (snd (handleQueueAssetRefresh ?E ?S ?V)) = [?ja, ?jb]"
    by (simp add: ex_defs handleQueueAssetRefresh_def libraryGet_def userExternalPath_def
          userRepository_get_def getByLibraryId_def getOnlineAssetPaths_def updateRefreshedAt_def
          queueJob_def emitted_def Let_def)
  have fl: "\<not> refreshModifiedFiles ?S \<and> \<not> refreshAllFiles ?S" by simp
  have N: "\<forall>x. normalize ?E (normalize ?E x) = normalize ?E x" by (simp add: exampleEnv_def)
  have F: "\<forall>as. generateId ?E as \<notin> set (map asset_id as)"
    using longerId_fresh by (simp add: exampleEnv_def)
  have D: "distinct (map asset_id (assets ?V)) \<and> distinct (map lib_id (libraries ?V))"
    by (simp add: exampleWorld_def)
  have S: "\<forall>lib. libraryGet ?V (refresh_id ?S) False = Some lib \<longrightarrow>
       (\<forall>c \<in> set (crawl ?E (importPaths lib) (exclusionPatterns lib)).
          stat ?E (normalize ?E c) \<noteq> None \<and> classifyAssetType ?E (normalize ?E c) \<noteq> None)"
    by (simp add: exampleEnv_def classifyAssetType_def endsWith_def)
  have js: "set ?js = set (emitted ?V (snd (handleQueueAssetRefresh ?E ?S ?V)))"
    unfolding em by auto
  from C2_idempotent_rerun[of ?W ?J ?E ?A ?S ?V ?js] noop
  have c1: "snd (handleAssetRefresh ?E ?J ?W) = ?W" by blast
  have "filter isScanAssetJob
     (emitted (fold (runJob ?E) ?js (snd (handleQueueAssetRefresh ?E ?S ?V)))
        (snd (handleQueueAssetRefresh ?E ?S
           (fold (runJob ?E) ?js (snd (handleQueueAssetRefresh ?E ?S ?V)))))) = []"
    using C2_idempotent_rerun[of ?W ?J ?E ?A ?S ?V ?js] fl N F D S js by blast
  with c1 em show ?thesis by blast
qed

end
